theory Spec2Isabelle
  imports Complex_Main "HOL-Library.Char_ord"
begin

section \<open>Shared data: dates, enums and the local record shapes (src/lib/db.ts)\<close>

text \<open>
  A JavaScript \<^verbatim>\<open>Date\<close> is an instant in milliseconds since the epoch, or the
  invalid date (\<^verbatim>\<open>new Date(NaN)\<close>).  \<^verbatim>\<open>toISOString\<close> throws a RangeError on the
  invalid date; \<^verbatim>\<open>toDateString\<close> renders it as the text "Invalid Date".
\<close>

datatype jsdate = Date int | InvalidDate

datatype sex = male | female

datatype disabilityStatus =
  none | visual | hearing | physical | intellectual | multiple | other

text \<open>
  The record types are the interfaces of db.ts without the optional \<^verbatim>\<open>id\<close>: a stored
  row is a pair of its primary key and one of these records.  Optional fields
  (\<^verbatim>\<open>field?: T\<close>) are \<open>option\<close>s; numbers that are only copied are rationals.
\<close>

record Ward =
  w_code :: string
  w_name :: string
  w_createdAt :: jsdate

record Village =
  v_wardId :: nat
  v_code :: string
  v_name :: string
  v_createdAt :: jsdate

record Household =
  h_villageId :: nat
  h_code :: string
  h_headName :: string
  h_locationDescription :: "string option"
  h_latitude :: "rat option"
  h_longitude :: "rat option"
  h_createdAt :: jsdate
  h_updatedAt :: jsdate

record Citizen =
  c_uniqueId :: string
  c_householdId :: nat
  c_villageId :: nat
  c_wardId :: nat
  c_firstName :: string
  c_lastName :: string
  c_otherNames :: "string option"
  c_sex :: sex
  c_dateOfBirth :: "jsdate option"
  c_age :: "rat option"
  c_phoneNumber :: "string option"
  c_occupation :: "string option"
  c_disabilityStatus :: disabilityStatus
  c_disabilityNotes :: "string option"
  c_photoData :: "string option"
  c_fingerprintData :: "string option"
  c_notes :: "string option"
  c_consentGiven :: bool
  c_consentDate :: "jsdate option"
  c_recorderName :: "string option"
  c_createdAt :: jsdate
  c_updatedAt :: jsdate

text \<open>\<^verbatim>\<open>Partial<Citizen>\<close>: every field may be missing.  Only the six fields that
  \<^verbatim>\<open>findDuplicates\<close> reads are kept.\<close>

record PartialCitizen =
  p_firstName :: "string option"
  p_lastName :: "string option"
  p_phoneNumber :: "string option"
  p_dateOfBirth :: "jsdate option"
  p_householdId :: "nat option"
  p_villageId :: "nat option"

text \<open>JavaScript truthiness of the values the code tests with \<^verbatim>\<open>&&\<close>, \<^verbatim>\<open>!\<close> and \<^verbatim>\<open>||\<close>.\<close>

definition truthy_str :: "string option \<Rightarrow> bool" where
  "truthy_str s = (case s of None \<Rightarrow> False | Some t \<Rightarrow> t \<noteq> [])"

definition truthy_num :: "nat option \<Rightarrow> bool" where
  "truthy_num n = (case n of None \<Rightarrow> False | Some k \<Rightarrow> k \<noteq> 0)"

section \<open>Duplicate detection (src/lib/validation.ts)\<close>

subsection \<open>stringSimilarity\<close>

text \<open>Strings are ASCII here: \<^verbatim>\<open>toLowerCase\<close> maps A..Z to a..z and \<^verbatim>\<open>trim\<close> strips
  the ASCII white space (space, tab, line feed, vertical tab, form feed, carriage return).\<close>

definition toLowerCase_char :: "char \<Rightarrow> char" where
  "toLowerCase_char c =
     (if CHR ''A'' \<le> c \<and> c \<le> CHR ''Z'' then char_of (of_char c + (32::nat)) else c)"

definition toLowerCase :: "string \<Rightarrow> string" where
  "toLowerCase s = map toLowerCase_char s"

definition is_space :: "char \<Rightarrow> bool" where
  "is_space c = (c = CHR '' '' \<or> (CHR 0x09 \<le> c \<and> c \<le> CHR 0x0D))"

definition trim :: "string \<Rightarrow> string" where
  "trim s = rev (dropWhile is_space (rev (dropWhile is_space s)))"

text \<open>
  One pass of the inner \<^verbatim>\<open>j\<close> loop: \<open>matrix_row c s2 prev left\<close> fills
  \<^verbatim>\<open>matrix[i][1..]\<close> for the character \<open>c = s1[i-1]\<close>, reading the row above
  (\<open>prev\<close>, starting at \<^verbatim>\<open>matrix[i-1][j-1]\<close>) and the cell to the left.
\<close>

fun matrix_row :: "char \<Rightarrow> string \<Rightarrow> nat list \<Rightarrow> nat \<Rightarrow> nat list" where
  "matrix_row c (d # ds) (diag # up # rest) left =
     (let cost = (if c = d then 0 else 1);
          v = min (min (up + 1) (left + 1)) (diag + cost)
      in v # matrix_row c ds (up # rest) v)"
| "matrix_row c ds prev left = []"

text \<open>The outer \<^verbatim>\<open>i\<close> loop: \<open>matrix_rows i s1 s2 prev\<close> yields the rows
  \<^verbatim>\<open>matrix[i..]\<close>, each starting with its own index (\<^verbatim>\<open>matrix[i] = [i]\<close>).\<close>

fun matrix_rows :: "nat \<Rightarrow> string \<Rightarrow> string \<Rightarrow> nat list \<Rightarrow> nat list list" where
  "matrix_rows i [] s2 prev = []"
| "matrix_rows i (c # cs) s2 prev =
     (let row = i # matrix_row c s2 prev i in row # matrix_rows (Suc i) cs s2 row)"

definition matrix :: "string \<Rightarrow> string \<Rightarrow> nat list list" where
  "matrix s1 s2 = (let row0 = [0 ..< Suc (length s2)] in row0 # matrix_rows 1 s1 s2 row0)"

definition stringSimilarity :: "string \<Rightarrow> string \<Rightarrow> rat" where
  "stringSimilarity str1 str2 =
     (let s1 = trim (toLowerCase str1); s2 = trim (toLowerCase str2) in
      if s1 = s2 then 1
      else if length s1 = 0 \<or> length s2 = 0 then 0
      else let maxLen = max (length s1) (length s2) in
        1 - of_nat (matrix s1 s2 ! length s1 ! length s2) / of_nat maxLen)"

subsection \<open>findDuplicates\<close>

text \<open>
  A match reason stands for the text the code pushes: \<open>FirstNameSimilar p\<close> is
  "First name similar (p%)", \<open>LastNameSimilar p\<close> is "Last name similar (p%)", and the
  others are "Same phone number", "Same date of birth", "Same household", "Same village".
\<close>

datatype reason =
  FirstNameSimilar int | LastNameSimilar int
  | SamePhoneNumber | SameDateOfBirth | SameHousehold | SameVillage

text \<open>The field \<open>dm_citizen\<close> is \<^verbatim>\<open>DuplicateMatch.citizen\<close>.\<close>

record DuplicateMatch =
  dm_citizen :: "nat \<times> Citizen"
  matchScore :: rat
  matchReasons :: "reason list"

text \<open>\<^verbatim>\<open>Math.round\<close> on a non-negative number.\<close>

definition Math_round :: "rat \<Rightarrow> int" where
  "Math_round x = \<lfloor>x + 1 / 2\<rfloor>"

text \<open>\<^verbatim>\<open>s.replace(/\D/g, "")\<close>: keep the decimal digits.\<close>

definition digits_only :: "string \<Rightarrow> string" where
  "digits_only s = filter (\<lambda>c. CHR ''0'' \<le> c \<and> c \<le> CHR ''9'') s"

text \<open>
  \<^verbatim>\<open>new Date(d).toDateString()\<close> names the calendar day of \<open>d\<close> in the device's time
  zone; \<open>tz\<close> gives the zone's offset from UTC in milliseconds at an instant.  Two such
  texts are equal exactly when the local day numbers are; \<open>None\<close> is "Invalid Date".
\<close>

definition toDateString :: "(int \<Rightarrow> int) \<Rightarrow> jsdate \<Rightarrow> int option" where
  "toDateString tz d =
     (case d of InvalidDate \<Rightarrow> None | Date ms \<Rightarrow> Some ((ms + tz ms) div 86400000))"

text \<open>The three accumulators of one loop iteration: \<^verbatim>\<open>matchReasons\<close>,
  \<^verbatim>\<open>totalScore\<close> and \<^verbatim>\<open>scoreCount\<close>.\<close>

type_synonym acc = "reason list \<times> rat \<times> nat"

definition contribute :: "reason \<Rightarrow> rat \<Rightarrow> acc \<Rightarrow> acc" where
  "contribute r s a =
     (case a of (reasons, totalScore, scoreCount) \<Rightarrow>
        (reasons @ [r], totalScore + s, Suc scoreCount))"

definition check_firstName :: "PartialCitizen \<Rightarrow> Citizen \<Rightarrow> acc \<Rightarrow> acc" where
  "check_firstName new ex a =
     (if truthy_str (p_firstName new) \<and> c_firstName ex \<noteq> [] then
        let firstNameSim = stringSimilarity (the (p_firstName new)) (c_firstName ex) in
        if firstNameSim > 8 / 10
        then contribute (FirstNameSimilar (Math_round (firstNameSim * 100))) firstNameSim a
        else a
      else a)"

definition check_lastName :: "PartialCitizen \<Rightarrow> Citizen \<Rightarrow> acc \<Rightarrow> acc" where
  "check_lastName new ex a =
     (if truthy_str (p_lastName new) \<and> c_lastName ex \<noteq> [] then
        let lastNameSim = stringSimilarity (the (p_lastName new)) (c_lastName ex) in
        if lastNameSim > 8 / 10
        then contribute (LastNameSimilar (Math_round (lastNameSim * 100))) lastNameSim a
        else a
      else a)"

definition check_phone :: "PartialCitizen \<Rightarrow> Citizen \<Rightarrow> acc \<Rightarrow> acc" where
  "check_phone new ex a =
     (if truthy_str (p_phoneNumber new) \<and> truthy_str (c_phoneNumber ex) then
        let cleanNew = digits_only (the (p_phoneNumber new));
            cleanExisting = digits_only (the (c_phoneNumber ex)) in
        if cleanNew = cleanExisting \<and> length cleanNew > 0
        then contribute SamePhoneNumber 1 a
        else a
      else a)"

definition check_dateOfBirth ::
  "(int \<Rightarrow> int) \<Rightarrow> PartialCitizen \<Rightarrow> Citizen \<Rightarrow> acc \<Rightarrow> acc" where
  "check_dateOfBirth tz new ex a =
     (case (p_dateOfBirth new, c_dateOfBirth ex) of
        (Some dn, Some de) \<Rightarrow>
          if toDateString tz dn = toDateString tz de
          then contribute SameDateOfBirth 1 a
          else a
      | _ \<Rightarrow> a)"

definition check_household :: "PartialCitizen \<Rightarrow> Citizen \<Rightarrow> acc \<Rightarrow> acc" where
  "check_household new ex a =
     (if truthy_num (p_householdId new) \<and> c_householdId ex \<noteq> 0
         \<and> the (p_householdId new) = c_householdId ex
      then contribute SameHousehold (5 / 10) a
      else a)"

definition check_village :: "PartialCitizen \<Rightarrow> Citizen \<Rightarrow> acc \<Rightarrow> acc" where
  "check_village new ex a =
     (if truthy_num (p_villageId new) \<and> c_villageId ex \<noteq> 0
         \<and> the (p_villageId new) = c_villageId ex
      then contribute SameVillage (3 / 10) a
      else a)"

text \<open>The body of the \<^verbatim>\<open>for (const existing of existingCitizens)\<close> loop up to the
  final test.\<close>

definition signals :: "(int \<Rightarrow> int) \<Rightarrow> PartialCitizen \<Rightarrow> Citizen \<Rightarrow> acc" where
  "signals tz new ex =
     check_village new ex
       (check_household new ex
         (check_dateOfBirth tz new ex
           (check_phone new ex
             (check_lastName new ex
               (check_firstName new ex ([], 0, 0))))))"

text \<open>The final test of an iteration: what it pushes on \<^verbatim>\<open>duplicates\<close>.\<close>

definition report ::
  "(int \<Rightarrow> int) \<Rightarrow> PartialCitizen \<Rightarrow> rat \<Rightarrow> nat \<times> Citizen \<Rightarrow> DuplicateMatch list" where
  "report tz new threshold existing =
     (case signals tz new (snd existing) of (reasons, totalScore, scoreCount) \<Rightarrow>
        if scoreCount > 0 then
          let score = totalScore / of_nat scoreCount in
          if score \<ge> threshold \<and> length reasons \<ge> 2
          then [\<lparr>dm_citizen = existing, matchScore = score, matchReasons = reasons\<rparr>]
          else []
        else [])"

text \<open>
  \<open>existingCitizens\<close> is \<^verbatim>\<open>db.citizens.toArray()\<close>.  \<^verbatim>\<open>Array.prototype.sort\<close> is stable,
  as is \<open>sort_key\<close>; sorting by the negated score is the comparator
  \<^verbatim>\<open>(a, b) => b.matchScore - a.matchScore\<close>.
\<close>

definition findDuplicates ::
  "(int \<Rightarrow> int) \<Rightarrow> (nat \<times> Citizen) list \<Rightarrow> PartialCitizen \<Rightarrow> rat \<Rightarrow> DuplicateMatch list" where
  "findDuplicates tz existingCitizens newCitizen threshold =
     sort_key (\<lambda>m. - matchScore m)
       (concat (map (report tz newCitizen threshold) existingCitizens))"


subsection \<open>The reporting rule in the specification's words\<close>

text \<open>
  The contributing signals of a pair of records, as the specification lists them: each
  name similarity counts only above 0.8, an exact digits-only phone match and an exact
  birth-day match score 1, the same unit scores 0.5 and the same subarea 0.3.
\<close>

definition contributions ::
  "(int \<Rightarrow> int) \<Rightarrow> PartialCitizen \<Rightarrow> Citizen \<Rightarrow> (reason \<times> rat) list" where
  "contributions tz new ex =
     (if truthy_str (p_firstName new) \<and> c_firstName ex \<noteq> []
         \<and> stringSimilarity (the (p_firstName new)) (c_firstName ex) > 8 / 10
      then [(FirstNameSimilar
              (Math_round (stringSimilarity (the (p_firstName new)) (c_firstName ex) * 100)),
             stringSimilarity (the (p_firstName new)) (c_firstName ex))]
      else [])
     @ (if truthy_str (p_lastName new) \<and> c_lastName ex \<noteq> []
         \<and> stringSimilarity (the (p_lastName new)) (c_lastName ex) > 8 / 10
      then [(LastNameSimilar
              (Math_round (stringSimilarity (the (p_lastName new)) (c_lastName ex) * 100)),
             stringSimilarity (the (p_lastName new)) (c_lastName ex))]
      else [])
     @ (if truthy_str (p_phoneNumber new) \<and> truthy_str (c_phoneNumber ex)
         \<and> digits_only (the (p_phoneNumber new)) = digits_only (the (c_phoneNumber ex))
         \<and> digits_only (the (p_phoneNumber new)) \<noteq> []
      then [(SamePhoneNumber, 1)] else [])
     @ (if p_dateOfBirth new \<noteq> None \<and> c_dateOfBirth ex \<noteq> None
         \<and> toDateString tz (the (p_dateOfBirth new)) = toDateString tz (the (c_dateOfBirth ex))
      then [(SameDateOfBirth, 1)] else [])
     @ (if truthy_num (p_householdId new) \<and> c_householdId ex \<noteq> 0
         \<and> the (p_householdId new) = c_householdId ex
      then [(SameHousehold, 5 / 10)] else [])
     @ (if truthy_num (p_villageId new) \<and> c_villageId ex \<noteq> 0
         \<and> the (p_villageId new) = c_villageId ex
      then [(SameVillage, 3 / 10)] else [])"

definition score_of :: "(reason \<times> rat) list \<Rightarrow> rat" where
  "score_of cs = sum_list (map snd cs) / of_nat (length cs)"

text \<open>The accumulators after the signals \<open>cs\<close> have been counted.\<close>

definition acc_of :: "(reason \<times> rat) list \<Rightarrow> acc" where
  "acc_of cs = (map fst cs, sum_list (map snd cs), length cs)"

section \<open>The two stores and the run's environment\<close>

subsection \<open>The local store (Dexie tables of src/lib/db.ts)\<close>

text \<open>
  A Dexie table with an auto-incremented primary key (\<^verbatim>\<open>++id\<close>): its rows in primary-key
  order, each with its key, and the next key to hand out.  The IndexedDB requests
  themselves are taken to succeed.
\<close>

record 'a table =
  rows :: "(nat \<times> 'a) list"
  next_id :: nat

definition toArray :: "'a table \<Rightarrow> (nat \<times> 'a) list" where
  "toArray t = rows t"

text \<open>\<^verbatim>\<open>table.where(key).equals(c).first()\<close>\<close>

definition first_where :: "('a \<Rightarrow> string) \<Rightarrow> 'a table \<Rightarrow> string \<Rightarrow> (nat \<times> 'a) option" where
  "first_where key t c = find (\<lambda>r. key (snd r) = c) (rows t)"

text \<open>\<^verbatim>\<open>table.update(id, row)\<close> with a row that gives every field but the key: the stored
  fields are replaced.\<close>

definition update_row :: "'a table \<Rightarrow> nat \<Rightarrow> 'a \<Rightarrow> 'a table" where
  "update_row t i r = t\<lparr>rows := map (\<lambda>old. if fst old = i then (i, r) else old) (rows t)\<rparr>"

text \<open>\<^verbatim>\<open>table.add(row)\<close> resolves with the new key.\<close>

definition add_row :: "'a table \<Rightarrow> 'a \<Rightarrow> 'a table \<times> nat option" where
  "add_row t r =
     (t\<lparr>rows := rows t @ [(next_id t, r)], next_id := Suc (next_id t)\<rparr>, Some (next_id t))"

text \<open>The two settings the engine reads and writes through \<^verbatim>\<open>getAppSetting\<close> and
  \<^verbatim>\<open>setAppSetting\<close>.\<close>

record settings =
  sync_device_id :: "string option"
  last_sync_time :: "int option"

record local_db =
  l_wards :: "Ward table"
  l_villages :: "Village table"
  l_households :: "Household table"
  l_citizens :: "Citizen table"
  l_settings :: settings

subsection \<open>The remote store (src/lib/supabase.ts)\<close>

text \<open>
  Remote identifiers are UUID texts, here tokens; they are never empty, so the code's
  truthiness tests on them only ask whether one is there.  A timestamp text is the
  instant it denotes, in milliseconds (\<^verbatim>\<open>toISOString\<close> and \<^verbatim>\<open>new Date(text)\<close> are
  inverse to each other on valid dates); a \<^verbatim>\<open>date_of_birth\<close> text "YYYY-MM-DD" is the number
  of that UTC day.
\<close>

type_synonym uuid = nat

datatype bucket = citizen_photos | citizen_fingerprints

text \<open>A public URL names the bucket and the file name \<^verbatim>\<open>${citizenId}-${Date.now()}.jpg\<close>.\<close>

type_synonym url = "bucket \<times> string \<times> int"

record SupabaseWard =
  sw_id :: uuid
  sw_code :: string
  sw_name :: string
  sw_created_at :: int
  sw_updated_at :: "int option"

record SupabaseVillage =
  sv_id :: uuid
  sv_ward_id :: uuid
  sv_code :: string
  sv_name :: string
  sv_created_at :: int
  sv_updated_at :: "int option"

record SupabaseHousehold =
  sh_id :: uuid
  sh_village_id :: uuid
  sh_code :: string
  sh_head_name :: string
  sh_location_description :: "string option"
  sh_latitude :: "rat option"
  sh_longitude :: "rat option"
  sh_created_at :: int
  sh_updated_at :: int

record SupabaseCitizen =
  sc_id :: uuid
  sc_unique_id :: string
  sc_household_id :: uuid
  sc_village_id :: uuid
  sc_ward_id :: uuid
  sc_first_name :: string
  sc_last_name :: string
  sc_other_names :: "string option"
  sc_sex :: sex
  sc_date_of_birth :: "int option"
  sc_age :: "rat option"
  sc_phone_number :: "string option"
  sc_occupation :: "string option"
  sc_disability_status :: disabilityStatus
  sc_disability_notes :: "string option"
  sc_photo_url :: "url option"
  sc_fingerprint_url :: "url option"
  sc_consent_given :: bool
  sc_consent_date :: "int option"
  sc_recorder_name :: "string option"
  sc_notes :: "string option"
  sc_created_at :: int
  sc_updated_at :: int
  sc_synced_at :: "int option"
  sc_device_id :: "string option"

record remote_db =
  r_wards :: "SupabaseWard list"
  r_villages :: "SupabaseVillage list"
  r_households :: "SupabaseHousehold list"
  r_citizens :: "SupabaseCitizen list"
  r_storage :: "(url \<times> string) list"

text \<open>
  \<^verbatim>\<open>.select('id').eq(key, c).single()\<close> yields the row only when exactly one row matches;
  otherwise \<^verbatim>\<open>data\<close> is null.
\<close>

definition single :: "('r \<Rightarrow> string) \<Rightarrow> 'r list \<Rightarrow> string \<Rightarrow> 'r option" where
  "single key table c = (case filter (\<lambda>r. key r = c) table of [r] \<Rightarrow> Some r | _ \<Rightarrow> None)"

definition insert_row :: "'r list \<Rightarrow> 'r \<Rightarrow> 'r list" where
  "insert_row table r = table @ [r]"

text \<open>
  \<^verbatim>\<open>.update(row).eq('id', i)\<close>.  The request body is the JSON text of \<open>row\<close>, which leaves
  out the fields that are \<^verbatim>\<open>undefined\<close>; the remote store keeps its value for a column
  the body does not name.  \<open>patch old new\<close> is the stored row after the update.
\<close>

definition update_eq_id ::
  "('r \<Rightarrow> uuid) \<Rightarrow> ('r \<Rightarrow> 'r \<Rightarrow> 'r) \<Rightarrow> 'r list \<Rightarrow> uuid \<Rightarrow> 'r \<Rightarrow> 'r list" where
  "update_eq_id ident patch table i new =
     map (\<lambda>old. if ident old = i then patch old new else old) table"

definition keep :: "'a option \<Rightarrow> 'a option \<Rightarrow> 'a option" where
  "keep old new = (case new of None \<Rightarrow> old | Some v \<Rightarrow> Some v)"

definition patch_ward :: "SupabaseWard \<Rightarrow> SupabaseWard \<Rightarrow> SupabaseWard" where
  "patch_ward old new = new\<lparr>sw_updated_at := keep (sw_updated_at old) (sw_updated_at new)\<rparr>"

definition patch_village :: "SupabaseVillage \<Rightarrow> SupabaseVillage \<Rightarrow> SupabaseVillage" where
  "patch_village old new = new\<lparr>sv_updated_at := keep (sv_updated_at old) (sv_updated_at new)\<rparr>"

definition patch_household :: "SupabaseHousehold \<Rightarrow> SupabaseHousehold \<Rightarrow> SupabaseHousehold" where
  "patch_household old new =
     new\<lparr>sh_location_description :=
           keep (sh_location_description old) (sh_location_description new),
         sh_latitude := keep (sh_latitude old) (sh_latitude new),
         sh_longitude := keep (sh_longitude old) (sh_longitude new)\<rparr>"

definition patch_citizen :: "SupabaseCitizen \<Rightarrow> SupabaseCitizen \<Rightarrow> SupabaseCitizen" where
  "patch_citizen old new =
     new\<lparr>sc_other_names := keep (sc_other_names old) (sc_other_names new),
         sc_date_of_birth := keep (sc_date_of_birth old) (sc_date_of_birth new),
         sc_age := keep (sc_age old) (sc_age new),
         sc_phone_number := keep (sc_phone_number old) (sc_phone_number new),
         sc_occupation := keep (sc_occupation old) (sc_occupation new),
         sc_disability_notes := keep (sc_disability_notes old) (sc_disability_notes new),
         sc_photo_url := keep (sc_photo_url old) (sc_photo_url new),
         sc_fingerprint_url := keep (sc_fingerprint_url old) (sc_fingerprint_url new),
         sc_consent_date := keep (sc_consent_date old) (sc_consent_date new),
         sc_recorder_name := keep (sc_recorder_name old) (sc_recorder_name new),
         sc_notes := keep (sc_notes old) (sc_notes new),
         sc_synced_at := keep (sc_synced_at old) (sc_synced_at new),
         sc_device_id := keep (sc_device_id old) (sc_device_id new)\<rparr>"

subsection \<open>What a run cannot control\<close>

text \<open>
  A call of the remote client resolves with data (\<open>Ok\<close>), resolves with an error value
  (\<open>ErrorValue\<close>: \<^verbatim>\<open>{data: null, error}\<close>, nothing written), or rejects (\<open>Throws\<close>).
\<close>

datatype outcome = Ok | ErrorValue | Throws

datatype tbl = T_wards | T_villages | T_households | T_citizens

text \<open>
  The environment of one run: \<^verbatim>\<open>navigator.onLine\<close>, the clock (\<^verbatim>\<open>Date.now()\<close>, taken
  constant during the run), the outcome of each remote call by table and natural key, of
  each \<^verbatim>\<open>select('*')\<close> by table, of each storage upload by bucket and owner, whether the
  \<^verbatim>\<open>fetch\<close> of a stored object rejects, the body served for an object that is not there,
  and the random part of a new device identifier.
\<close>

record env =
  onLine :: bool
  now :: int
  single_outcome :: "tbl \<Rightarrow> string \<Rightarrow> outcome"
  write_outcome :: "tbl \<Rightarrow> string \<Rightarrow> outcome"
  select_outcome :: "tbl \<Rightarrow> outcome"
  upload_outcome :: "bucket \<Rightarrow> string \<Rightarrow> outcome"
  fetch_fails :: "url \<Rightarrow> bool"
  missing_body :: string
  device_suffix :: string

text \<open>What the code catches: the RangeError of \<^verbatim>\<open>toISOString\<close> on an invalid date, a
  rejected remote call, and the errors it throws itself.\<close>

datatype exn = InvalidTime | Rejected | NoInternet | AddFailed

text \<open>
  The texts pushed on \<^verbatim>\<open>result.errors\<close>: \<open>RecordFailed t k e\<close> is
  \<^verbatim>\<open>`Ward ${code}: ${error}`\<close> and its siblings, \<open>ParentNotFound t k\<close> is
  "Village k: Ward not found", "Household k: Village not found", "Citizen k: Missing
  parent records" (on download "... not found locally"), \<open>FetchFailed t\<close> is
  "Failed to fetch wards: ...", and \<open>RunFailed e\<close> is "Sync failed: ..." or
  "Restore failed: ...".
\<close>

datatype sync_error =
  RecordFailed tbl string exn
  | ParentNotFound tbl string
  | FetchFailed tbl
  | RunFailed exn

record counts =
  wards :: nat
  villages :: nat
  households :: nat
  citizens :: nat

record SyncResult =
  success :: bool
  uploaded :: counts
  downloaded :: counts
  errors :: "sync_error list"

definition no_counts :: counts where
  "no_counts = \<lparr>wards = 0, villages = 0, households = 0, citizens = 0\<rparr>"

text \<open>The initial \<^verbatim>\<open>result\<close> of both entry points.\<close>

definition initial_result :: SyncResult where
  "initial_result =
     \<lparr>success = False, uploaded = no_counts, downloaded = no_counts, errors = []\<rparr>"

text \<open>The stores and the supply of \<^verbatim>\<open>crypto.randomUUID()\<close>: the next token it returns.\<close>

record world =
  w_local :: local_db
  w_remote :: remote_db
  w_uuid :: nat

section \<open>Upload (syncToSupabase in src/lib/supabaseSync.ts)\<close>

subsection \<open>Converters\<close>

definition toISOString :: "jsdate \<Rightarrow> exn + int" where
  "toISOString d = (case d of InvalidDate \<Rightarrow> Inl InvalidTime | Date ms \<Rightarrow> Inr ms)"

text \<open>\<^verbatim>\<open>d?.toISOString()\<close> on an optional date.\<close>

definition toISOString_opt :: "jsdate option \<Rightarrow> exn + int option" where
  "toISOString_opt d =
     (case d of None \<Rightarrow> Inr None
      | Some InvalidDate \<Rightarrow> Inl InvalidTime
      | Some (Date ms) \<Rightarrow> Inr (Some ms))"

text \<open>\<^verbatim>\<open>d?.toISOString().split('T')[0]\<close>: the UTC day of the instant.\<close>

definition toISODate_opt :: "jsdate option \<Rightarrow> exn + int option" where
  "toISODate_opt d =
     (case d of None \<Rightarrow> Inr None
      | Some InvalidDate \<Rightarrow> Inl InvalidTime
      | Some (Date ms) \<Rightarrow> Inr (Some (ms div 86400000)))"

text \<open>
  \<open>fresh\<close> is what \<^verbatim>\<open>crypto.randomUUID()\<close> returns when \<^verbatim>\<open>existingId\<close> is missing.  The
  object literal computes \<^verbatim>\<open>id\<close> before the timestamps, so the token is drawn even when
  \<^verbatim>\<open>toISOString\<close> throws.
\<close>

definition wardToSupabase :: "Ward \<Rightarrow> uuid option \<Rightarrow> uuid \<Rightarrow> exn + SupabaseWard" where
  "wardToSupabase ward existingId fresh =
     (case toISOString (w_createdAt ward) of
        Inl e \<Rightarrow> Inl e
      | Inr created \<Rightarrow>
          Inr \<lparr>sw_id = (case existingId of Some i \<Rightarrow> i | None \<Rightarrow> fresh),
               sw_code = w_code ward,
               sw_name = w_name ward,
               sw_created_at = created,
               sw_updated_at = None\<rparr>)"

definition villageToSupabase ::
  "Village \<Rightarrow> uuid \<Rightarrow> uuid option \<Rightarrow> uuid \<Rightarrow> exn + SupabaseVillage" where
  "villageToSupabase village wardUuid existingId fresh =
     (case toISOString (v_createdAt village) of
        Inl e \<Rightarrow> Inl e
      | Inr created \<Rightarrow>
          Inr \<lparr>sv_id = (case existingId of Some i \<Rightarrow> i | None \<Rightarrow> fresh),
               sv_ward_id = wardUuid,
               sv_code = v_code village,
               sv_name = v_name village,
               sv_created_at = created,
               sv_updated_at = None\<rparr>)"

definition householdToSupabase ::
  "Household \<Rightarrow> uuid \<Rightarrow> uuid option \<Rightarrow> uuid \<Rightarrow> exn + SupabaseHousehold" where
  "householdToSupabase household villageUuid existingId fresh =
     (case toISOString (h_createdAt household) of
        Inl e \<Rightarrow> Inl e
      | Inr created \<Rightarrow>
         (case toISOString (h_updatedAt household) of
            Inl e \<Rightarrow> Inl e
          | Inr updated \<Rightarrow>
              Inr \<lparr>sh_id = (case existingId of Some i \<Rightarrow> i | None \<Rightarrow> fresh),
                   sh_village_id = villageUuid,
                   sh_code = h_code household,
                   sh_head_name = h_headName household,
                   sh_location_description = h_locationDescription household,
                   sh_latitude = h_latitude household,
                   sh_longitude = h_longitude household,
                   sh_created_at = created,
                   sh_updated_at = updated\<rparr>))"

text \<open>\<^verbatim>\<open>getDeviceId\<close>: the stored identifier, or a new one
  \<^verbatim>\<open>`device-${Date.now()}-${random}`\<close> that is stored first.\<close>

definition getDeviceId :: "env \<Rightarrow> settings \<Rightarrow> settings \<times> string" where
  "getDeviceId e s =
     (if truthy_str (sync_device_id s) then (s, the (sync_device_id s))
      else let deviceId = ''device-'' @ device_suffix e
           in (s\<lparr>sync_device_id := Some deviceId\<rparr>, deviceId))"

text \<open>\<^verbatim>\<open>citizenToSupabase\<close> after its \<^verbatim>\<open>await getDeviceId()\<close>: \<open>deviceId\<close> is that call's
  result and \<open>synced\<close> the clock.\<close>

definition citizenToSupabase ::
  "Citizen \<Rightarrow> uuid \<Rightarrow> uuid \<Rightarrow> uuid \<Rightarrow> uuid option \<Rightarrow> uuid \<Rightarrow> string \<Rightarrow> int
     \<Rightarrow> exn + SupabaseCitizen" where
  "citizenToSupabase c householdUuid villageUuid wardUuid existingId fresh deviceId synced =
     (case toISODate_opt (c_dateOfBirth c) of
        Inl e \<Rightarrow> Inl e
      | Inr dob \<Rightarrow>
     (case toISOString_opt (c_consentDate c) of
        Inl e \<Rightarrow> Inl e
      | Inr consent \<Rightarrow>
     (case toISOString (c_createdAt c) of
        Inl e \<Rightarrow> Inl e
      | Inr created \<Rightarrow>
     (case toISOString (c_updatedAt c) of
        Inl e \<Rightarrow> Inl e
      | Inr updated \<Rightarrow>
          Inr \<lparr>sc_id = (case existingId of Some i \<Rightarrow> i | None \<Rightarrow> fresh),
               sc_unique_id = c_uniqueId c,
               sc_household_id = householdUuid,
               sc_village_id = villageUuid,
               sc_ward_id = wardUuid,
               sc_first_name = c_firstName c,
               sc_last_name = c_lastName c,
               sc_other_names = c_otherNames c,
               sc_sex = c_sex c,
               sc_date_of_birth = dob,
               sc_age = c_age c,
               sc_phone_number = c_phoneNumber c,
               sc_occupation = c_occupation c,
               sc_disability_status = c_disabilityStatus c,
               sc_disability_notes = c_disabilityNotes c,
               sc_photo_url = None,
               sc_fingerprint_url = None,
               sc_consent_given = c_consentGiven c,
               sc_consent_date = consent,
               sc_recorder_name = c_recorderName c,
               sc_notes = c_notes c,
               sc_created_at = created,
               sc_updated_at = updated,
               sc_synced_at = Some synced,
               sc_device_id = Some deviceId\<rparr>))))"

subsection \<open>Attachments\<close>

text \<open>\<^verbatim>\<open>storage.from(bucket).upload(fileName, blob, {upsert: true})\<close>\<close>

definition put_object :: "(url \<times> string) list \<Rightarrow> url \<Rightarrow> string \<Rightarrow> (url \<times> string) list" where
  "put_object storage u blob = (u, blob) # filter (\<lambda>p. fst p \<noteq> u) storage"

text \<open>
  \<^verbatim>\<open>uploadPhotoToStorage\<close> and \<^verbatim>\<open>uploadFingerprintToStorage\<close> differ in the bucket only.
  Both return the public URL, or null when the upload resolves with an error or
  anything throws; they push nothing on \<^verbatim>\<open>result.errors\<close>.
\<close>

definition uploadToStorage ::
  "env \<Rightarrow> bucket \<Rightarrow> (url \<times> string) list \<Rightarrow> string \<Rightarrow> string
     \<Rightarrow> (url \<times> string) list \<times> url option" where
  "uploadToStorage e b storage blob citizenId =
     (case upload_outcome e b citizenId of
        Ok \<Rightarrow> (let fileName = (b, citizenId, now e)
               in (put_object storage fileName blob, Some fileName))
      | ErrorValue \<Rightarrow> (storage, None)
      | Throws \<Rightarrow> (storage, None))"

definition uploadPhotoToStorage ::
  "env \<Rightarrow> (url \<times> string) list \<Rightarrow> string \<Rightarrow> string \<Rightarrow> (url \<times> string) list \<times> url option" where
  "uploadPhotoToStorage e storage photoData citizenId =
     uploadToStorage e citizen_photos storage photoData citizenId"

definition uploadFingerprintToStorage ::
  "env \<Rightarrow> (url \<times> string) list \<Rightarrow> string \<Rightarrow> string \<Rightarrow> (url \<times> string) list \<times> url option" where
  "uploadFingerprintToStorage e storage fingerprintData citizenId =
     uploadToStorage e citizen_fingerprints storage fingerprintData citizenId"

subsection \<open>The four upload loops\<close>

text \<open>
  What the loop over one tier reads and writes: the tier's remote table, its map from
  local keys to remote identifiers, the supply of fresh identifiers, the tier's counter
  \<^verbatim>\<open>result.uploaded.X\<close> and \<^verbatim>\<open>result.errors\<close>.
\<close>

record 'r up =
  u_table :: "'r list"
  u_map :: "nat \<rightharpoonup> uuid"
  u_uuid :: nat
  u_count :: nat
  u_errors :: "sync_error list"

text \<open>The \<^verbatim>\<open>catch (error)\<close> of a loop body.\<close>

definition up_fail ::
  "tbl \<Rightarrow> string \<Rightarrow> exn \<Rightarrow> ('r, 'z) up_scheme \<Rightarrow> ('r, 'z) up_scheme" where
  "up_fail t k e s = s\<lparr>u_errors := u_errors s @ [RecordFailed t k e]\<rparr>"

text \<open>
  The \<^verbatim>\<open>if (existing) ... update ... else ... insert\<close> of a loop body: the remote table
  after the call, unless the call rejects.  The code drops the resolved value, so an
  error value is not seen.
\<close>

definition remote_write ::
  "env \<Rightarrow> tbl \<Rightarrow> string \<Rightarrow> ('r \<Rightarrow> uuid) \<Rightarrow> ('r \<Rightarrow> 'r \<Rightarrow> 'r) \<Rightarrow> uuid option \<Rightarrow> 'r
     \<Rightarrow> 'r list \<Rightarrow> exn + 'r list" where
  "remote_write e t k ident patch existing row table =
     (case write_outcome e t k of
        Throws \<Rightarrow> Inl Rejected
      | ErrorValue \<Rightarrow> Inr table
      | Ok \<Rightarrow>
          Inr (case existing of
                 Some i \<Rightarrow> update_eq_id ident patch table i row
               | None \<Rightarrow> insert_row table row))"

text \<open>\<^verbatim>\<open>crypto.randomUUID()\<close> is called when there is no existing identifier.\<close>

definition draw :: "uuid option \<Rightarrow> ('r, 'z) up_scheme \<Rightarrow> ('r, 'z) up_scheme" where
  "draw existing s = (case existing of Some i \<Rightarrow> s | None \<Rightarrow> s\<lparr>u_uuid := Suc (u_uuid s)\<rparr>)"

text \<open>The lookup \<^verbatim>\<open>const { data: existing } = await ... .single()\<close>: the identifier found,
  if the call does not reject.\<close>

definition lookup ::
  "env \<Rightarrow> tbl \<Rightarrow> ('r \<Rightarrow> string) \<Rightarrow> ('r \<Rightarrow> uuid) \<Rightarrow> 'r list \<Rightarrow> string \<Rightarrow> exn + uuid option" where
  "lookup e t key ident table k =
     (case single_outcome e t k of
        Throws \<Rightarrow> Inl Rejected
      | ErrorValue \<Rightarrow> Inr None
      | Ok \<Rightarrow> Inr (map_option ident (single key table k)))"

definition upload_ward :: "env \<Rightarrow> nat \<times> Ward \<Rightarrow> SupabaseWard up \<Rightarrow> SupabaseWard up" where
  "upload_ward e w s =
     (let ward = snd w; k = w_code ward in
      case lookup e T_wards sw_code sw_id (u_table s) k of
        Inl x \<Rightarrow> up_fail T_wards k x s
      | Inr existing \<Rightarrow>
         (case wardToSupabase ward existing (u_uuid s) of
            Inl x \<Rightarrow> up_fail T_wards k x (draw existing s)
          | Inr supabaseWard \<Rightarrow>
             (let s1 = draw existing s in
              case remote_write e T_wards k sw_id patch_ward existing supabaseWard
                     (u_table s1) of
                Inl x \<Rightarrow> up_fail T_wards k x s1
              | Inr table \<Rightarrow>
                  s1\<lparr>u_table := table,
                     u_map := (u_map s1)(fst w \<mapsto> sw_id supabaseWard),
                     u_count := Suc (u_count s1)\<rparr>)))"

definition upload_village ::
  "env \<Rightarrow> (nat \<rightharpoonup> uuid) \<Rightarrow> nat \<times> Village \<Rightarrow> SupabaseVillage up \<Rightarrow> SupabaseVillage up" where
  "upload_village e wardIdMap v s =
     (let village = snd v; k = v_code village in
      case wardIdMap (v_wardId village) of
        None \<Rightarrow> s\<lparr>u_errors := u_errors s @ [ParentNotFound T_villages k]\<rparr>
      | Some wardUuid \<Rightarrow>
         (case lookup e T_villages sv_code sv_id (u_table s) k of
            Inl x \<Rightarrow> up_fail T_villages k x s
          | Inr existing \<Rightarrow>
             (case villageToSupabase village wardUuid existing (u_uuid s) of
                Inl x \<Rightarrow> up_fail T_villages k x (draw existing s)
              | Inr supabaseVillage \<Rightarrow>
                 (let s1 = draw existing s in
                  case remote_write e T_villages k sv_id patch_village existing
                         supabaseVillage (u_table s1) of
                    Inl x \<Rightarrow> up_fail T_villages k x s1
                  | Inr table \<Rightarrow>
                      s1\<lparr>u_table := table,
                         u_map := (u_map s1)(fst v \<mapsto> sv_id supabaseVillage),
                         u_count := Suc (u_count s1)\<rparr>))))"

definition upload_household ::
  "env \<Rightarrow> (nat \<rightharpoonup> uuid) \<Rightarrow> nat \<times> Household \<Rightarrow> SupabaseHousehold up \<Rightarrow> SupabaseHousehold up"
  where
  "upload_household e villageIdMap h s =
     (let household = snd h; k = h_code household in
      case villageIdMap (h_villageId household) of
        None \<Rightarrow> s\<lparr>u_errors := u_errors s @ [ParentNotFound T_households k]\<rparr>
      | Some villageUuid \<Rightarrow>
         (case lookup e T_households sh_code sh_id (u_table s) k of
            Inl x \<Rightarrow> up_fail T_households k x s
          | Inr existing \<Rightarrow>
             (case householdToSupabase household villageUuid existing (u_uuid s) of
                Inl x \<Rightarrow> up_fail T_households k x (draw existing s)
              | Inr supabaseHousehold \<Rightarrow>
                 (let s1 = draw existing s in
                  case remote_write e T_households k sh_id patch_household existing
                         supabaseHousehold (u_table s1) of
                    Inl x \<Rightarrow> up_fail T_households k x s1
                  | Inr table \<Rightarrow>
                      s1\<lparr>u_table := table,
                         u_map := (u_map s1)(fst h \<mapsto> sh_id supabaseHousehold),
                         u_count := Suc (u_count s1)\<rparr>))))"

text \<open>The citizens loop also writes the storage buckets and, through \<^verbatim>\<open>getDeviceId\<close>,
  the local settings; it keeps no map.\<close>

record up_citizens = "SupabaseCitizen up" +
  u_storage :: "(url \<times> string) list"
  u_settings :: settings

text \<open>The two \<^verbatim>\<open>if (citizen.photoData)\<close> and \<^verbatim>\<open>if (citizen.fingerprintData)\<close> blocks.\<close>

definition attach_photo ::
  "env \<Rightarrow> Citizen \<Rightarrow> SupabaseCitizen \<times> (url \<times> string) list
     \<Rightarrow> SupabaseCitizen \<times> (url \<times> string) list" where
  "attach_photo e c p =
     (if truthy_str (c_photoData c) then
        (case uploadPhotoToStorage e (snd p) (the (c_photoData c)) (c_uniqueId c) of
           (storage, Some photoUrl) \<Rightarrow> ((fst p)\<lparr>sc_photo_url := Some photoUrl\<rparr>, storage)
         | (storage, None) \<Rightarrow> (fst p, storage))
      else p)"

definition attach_fingerprint ::
  "env \<Rightarrow> Citizen \<Rightarrow> SupabaseCitizen \<times> (url \<times> string) list
     \<Rightarrow> SupabaseCitizen \<times> (url \<times> string) list" where
  "attach_fingerprint e c p =
     (if truthy_str (c_fingerprintData c) then
        (case uploadFingerprintToStorage e (snd p) (the (c_fingerprintData c)) (c_uniqueId c) of
           (storage, Some fingerprintUrl) \<Rightarrow>
             ((fst p)\<lparr>sc_fingerprint_url := Some fingerprintUrl\<rparr>, storage)
         | (storage, None) \<Rightarrow> (fst p, storage))
      else p)"

definition upload_citizen ::
  "env \<Rightarrow> (nat \<rightharpoonup> uuid) \<Rightarrow> (nat \<rightharpoonup> uuid) \<Rightarrow> (nat \<rightharpoonup> uuid) \<Rightarrow> nat \<times> Citizen
     \<Rightarrow> up_citizens \<Rightarrow> up_citizens" where
  "upload_citizen e wardIdMap villageIdMap householdIdMap c s =
     (let citizen = snd c; k = c_uniqueId citizen in
      case (householdIdMap (c_householdId citizen), villageIdMap (c_villageId citizen),
            wardIdMap (c_wardId citizen)) of
        (Some householdUuid, Some villageUuid, Some wardUuid) \<Rightarrow>
         (case lookup e T_citizens sc_unique_id sc_id (u_table s) k of
            Inl x \<Rightarrow> up_fail T_citizens k x s
          | Inr existing \<Rightarrow>
             (let (settings', deviceId) = getDeviceId e (u_settings s);
                  s1 = draw existing (s\<lparr>u_settings := settings'\<rparr>) in
              case citizenToSupabase citizen householdUuid villageUuid wardUuid existing
                     (u_uuid s) deviceId (now e) of
                Inl x \<Rightarrow> up_fail T_citizens k x s1
              | Inr supabaseCitizen \<Rightarrow>
                 (let (row, storage) =
                        attach_fingerprint e citizen
                          (attach_photo e citizen (supabaseCitizen, u_storage s1));
                      s2 = s1\<lparr>u_storage := storage\<rparr> in
                  case remote_write e T_citizens k sc_id patch_citizen existing row
                         (u_table s2) of
                    Inl x \<Rightarrow> up_fail T_citizens k x s2
                  | Inr table \<Rightarrow> s2\<lparr>u_table := table, u_count := Suc (u_count s2)\<rparr>)))
      | _ \<Rightarrow> s\<lparr>u_errors := u_errors s @ [ParentNotFound T_citizens k]\<rparr>)"

subsection \<open>syncToSupabase\<close>

definition upload_wards :: "env \<Rightarrow> (nat \<times> Ward) list \<Rightarrow> SupabaseWard up \<Rightarrow> SupabaseWard up" where
  "upload_wards e localWards s = fold (upload_ward e) localWards s"

definition upload_villages ::
  "env \<Rightarrow> (nat \<rightharpoonup> uuid) \<Rightarrow> (nat \<times> Village) list \<Rightarrow> SupabaseVillage up \<Rightarrow> SupabaseVillage up"
  where
  "upload_villages e wardIdMap localVillages s =
     fold (upload_village e wardIdMap) localVillages s"

definition upload_households ::
  "env \<Rightarrow> (nat \<rightharpoonup> uuid) \<Rightarrow> (nat \<times> Household) list \<Rightarrow> SupabaseHousehold up
     \<Rightarrow> SupabaseHousehold up" where
  "upload_households e villageIdMap localHouseholds s =
     fold (upload_household e villageIdMap) localHouseholds s"

definition upload_citizens ::
  "env \<Rightarrow> (nat \<rightharpoonup> uuid) \<Rightarrow> (nat \<rightharpoonup> uuid) \<Rightarrow> (nat \<rightharpoonup> uuid) \<Rightarrow> (nat \<times> Citizen) list
     \<Rightarrow> up_citizens \<Rightarrow> up_citizens" where
  "upload_citizens e wardIdMap villageIdMap householdIdMap localCitizens s =
     fold (upload_citizen e wardIdMap villageIdMap householdIdMap) localCitizens s"

text \<open>
  The body of the outer \<^verbatim>\<open>try\<close> after the connectivity check: the four loops in
  order, each starting from what the one before left, with fresh empty maps.
\<close>

definition upload_all :: "env \<Rightarrow> world \<Rightarrow> world \<times> counts \<times> sync_error list" where
  "upload_all e w =
     (let loc = w_local w; rem = w_remote w;
          sw = upload_wards e (toArray (l_wards loc))
                 \<lparr>u_table = r_wards rem, u_map = Map.empty, u_uuid = w_uuid w,
                  u_count = 0, u_errors = []\<rparr>;
          sv = upload_villages e (u_map sw) (toArray (l_villages loc))
                 \<lparr>u_table = r_villages rem, u_map = Map.empty, u_uuid = u_uuid sw,
                  u_count = 0, u_errors = u_errors sw\<rparr>;
          sh = upload_households e (u_map sv) (toArray (l_households loc))
                 \<lparr>u_table = r_households rem, u_map = Map.empty, u_uuid = u_uuid sv,
                  u_count = 0, u_errors = u_errors sv\<rparr>;
          sc = upload_citizens e (u_map sw) (u_map sv) (u_map sh) (toArray (l_citizens loc))
                 \<lparr>u_table = r_citizens rem, u_map = Map.empty, u_uuid = u_uuid sh,
                  u_count = 0, u_errors = u_errors sh,
                  u_storage = r_storage rem, u_settings = l_settings loc\<rparr>
      in (\<lparr>w_local = loc\<lparr>l_settings := (u_settings sc)\<lparr>last_sync_time := Some (now e)\<rparr>\<rparr>,
           w_remote = \<lparr>r_wards = u_table sw, r_villages = u_table sv,
                       r_households = u_table sh, r_citizens = u_table sc,
                       r_storage = u_storage sc\<rparr>,
           w_uuid = u_uuid sc\<rparr>,
          \<lparr>wards = u_count sw, villages = u_count sv, households = u_count sh,
           citizens = u_count sc\<rparr>,
          u_errors sc))"

text \<open>
  \<^verbatim>\<open>syncToSupabase\<close>: offline, the \<^verbatim>\<open>throw\<close> lands in the outer \<^verbatim>\<open>catch\<close> before anything
  else has run; otherwise the loops run and \<^verbatim>\<open>success\<close> is set from the error list.
\<close>

definition syncToSupabase :: "env \<Rightarrow> world \<Rightarrow> world \<times> SyncResult" where
  "syncToSupabase e w =
     (if \<not> onLine e then
        (w, initial_result\<lparr>errors := errors initial_result @ [RunFailed NoInternet],
                           success := False\<rparr>)
      else
        (case upload_all e w of
           (w', up_counts, errs) \<Rightarrow>
             (w', initial_result\<lparr>uploaded := up_counts, errors := errs,
                                 success := (length errs = 0)\<rparr>)))"

section \<open>Download (restoreFromSupabase in src/lib/supabaseSync.ts)\<close>

subsection \<open>Converters\<close>

definition supabaseToWard :: "SupabaseWard \<Rightarrow> Ward" where
  "supabaseToWard ward =
     \<lparr>w_code = sw_code ward, w_name = sw_name ward, w_createdAt = Date (sw_created_at ward)\<rparr>"

definition supabaseToVillage :: "SupabaseVillage \<Rightarrow> nat \<Rightarrow> Village" where
  "supabaseToVillage village localWardId =
     \<lparr>v_wardId = localWardId, v_code = sv_code village, v_name = sv_name village,
      v_createdAt = Date (sv_created_at village)\<rparr>"

definition supabaseToHousehold :: "SupabaseHousehold \<Rightarrow> nat \<Rightarrow> Household" where
  "supabaseToHousehold household localVillageId =
     \<lparr>h_villageId = localVillageId,
      h_code = sh_code household,
      h_headName = sh_head_name household,
      h_locationDescription = sh_location_description household,
      h_latitude = sh_latitude household,
      h_longitude = sh_longitude household,
      h_createdAt = Date (sh_created_at household),
      h_updatedAt = Date (sh_updated_at household)\<rparr>"

text \<open>\<^verbatim>\<open>new Date("YYYY-MM-DD")\<close> is the UTC midnight that starts the day.\<close>

definition supabaseToCitizen :: "SupabaseCitizen \<Rightarrow> nat \<Rightarrow> nat \<Rightarrow> nat \<Rightarrow> Citizen" where
  "supabaseToCitizen c localHouseholdId localVillageId localWardId =
     \<lparr>c_uniqueId = sc_unique_id c,
      c_householdId = localHouseholdId,
      c_villageId = localVillageId,
      c_wardId = localWardId,
      c_firstName = sc_first_name c,
      c_lastName = sc_last_name c,
      c_otherNames = sc_other_names c,
      c_sex = sc_sex c,
      c_dateOfBirth = map_option (\<lambda>day. Date (day * 86400000)) (sc_date_of_birth c),
      c_age = sc_age c,
      c_phoneNumber = sc_phone_number c,
      c_occupation = sc_occupation c,
      c_disabilityStatus = sc_disability_status c,
      c_disabilityNotes = sc_disability_notes c,
      c_photoData = None,
      c_fingerprintData = None,
      c_notes = sc_notes c,
      c_consentGiven = sc_consent_given c,
      c_consentDate = map_option Date (sc_consent_date c),
      c_recorderName = sc_recorder_name c,
      c_createdAt = Date (sc_created_at c),
      c_updatedAt = Date (sc_updated_at c)\<rparr>"

subsection \<open>Attachments\<close>

text \<open>
  \<^verbatim>\<open>downloadPhotoFromStorage\<close> and \<^verbatim>\<open>downloadFingerprintFromStorage\<close> are the same code:
  the data URL of whatever the \<^verbatim>\<open>fetch\<close> serves, or null when it rejects.
\<close>

definition downloadFromStorage :: "env \<Rightarrow> (url \<times> string) list \<Rightarrow> url \<Rightarrow> string option" where
  "downloadFromStorage e storage u =
     (if fetch_fails e u then None
      else Some (case map_of storage u of Some blob \<Rightarrow> blob | None \<Rightarrow> missing_body e))"

definition downloadPhotoFromStorage :: "env \<Rightarrow> (url \<times> string) list \<Rightarrow> url \<Rightarrow> string option" where
  "downloadPhotoFromStorage e storage photoUrl = downloadFromStorage e storage photoUrl"

definition downloadFingerprintFromStorage ::
  "env \<Rightarrow> (url \<times> string) list \<Rightarrow> url \<Rightarrow> string option" where
  "downloadFingerprintFromStorage e storage fingerprintUrl =
     downloadFromStorage e storage fingerprintUrl"

subsection \<open>The four download loops\<close>

text \<open>
  What the loop over one tier reads and writes: the tier's local table, its map from
  remote identifiers to local keys, the tier's counter \<^verbatim>\<open>result.downloaded.X\<close> and
  \<^verbatim>\<open>result.errors\<close>.
\<close>

record 'a down =
  d_table :: "'a table"
  d_map :: "uuid \<rightharpoonup> nat"
  d_count :: nat
  d_errors :: "sync_error list"

definition down_fail :: "tbl \<Rightarrow> string \<Rightarrow> exn \<Rightarrow> 'a down \<Rightarrow> 'a down" where
  "down_fail t k e s = s\<lparr>d_errors := d_errors s @ [RecordFailed t k e]\<rparr>"

text \<open>The upsert of a loop body with its \<^verbatim>\<open>localId\<close>: the update of the row found by
  natural key, or the add, which the code lets throw when no key comes back.\<close>

definition local_upsert ::
  "('a \<Rightarrow> string) \<Rightarrow> string \<Rightarrow> 'a \<Rightarrow> 'a table \<Rightarrow> exn + 'a table \<times> nat" where
  "local_upsert key k row t =
     (case first_where key t k of
        Some existing \<Rightarrow> Inr (update_row t (fst existing) row, fst existing)
      | None \<Rightarrow>
         (case add_row t row of
            (t', None) \<Rightarrow> Inl AddFailed
          | (t', Some newId) \<Rightarrow> Inr (t', newId)))"

definition download_ward :: "SupabaseWard \<Rightarrow> Ward down \<Rightarrow> Ward down" where
  "download_ward ward s =
     (case local_upsert w_code (sw_code ward) (supabaseToWard ward) (d_table s) of
        Inl x \<Rightarrow> down_fail T_wards (sw_code ward) x s
      | Inr (t, localId) \<Rightarrow>
          s\<lparr>d_table := t, d_map := (d_map s)(sw_id ward \<mapsto> localId),
            d_count := Suc (d_count s)\<rparr>)"

definition download_village ::
  "(uuid \<rightharpoonup> nat) \<Rightarrow> SupabaseVillage \<Rightarrow> Village down \<Rightarrow> Village down" where
  "download_village wardUuidToLocalId village s =
     (if \<not> truthy_num (wardUuidToLocalId (sv_ward_id village))
      then s\<lparr>d_errors := d_errors s @ [ParentNotFound T_villages (sv_code village)]\<rparr>
      else
        let localWardId = the (wardUuidToLocalId (sv_ward_id village)) in
        case local_upsert v_code (sv_code village) (supabaseToVillage village localWardId)
               (d_table s) of
          Inl x \<Rightarrow> down_fail T_villages (sv_code village) x s
        | Inr (t, localId) \<Rightarrow>
            s\<lparr>d_table := t, d_map := (d_map s)(sv_id village \<mapsto> localId),
              d_count := Suc (d_count s)\<rparr>)"

definition download_household ::
  "(uuid \<rightharpoonup> nat) \<Rightarrow> SupabaseHousehold \<Rightarrow> Household down \<Rightarrow> Household down" where
  "download_household villageUuidToLocalId household s =
     (if \<not> truthy_num (villageUuidToLocalId (sh_village_id household))
      then s\<lparr>d_errors := d_errors s @ [ParentNotFound T_households (sh_code household)]\<rparr>
      else
        let localVillageId = the (villageUuidToLocalId (sh_village_id household)) in
        case local_upsert h_code (sh_code household)
               (supabaseToHousehold household localVillageId) (d_table s) of
          Inl x \<Rightarrow> down_fail T_households (sh_code household) x s
        | Inr (t, localId) \<Rightarrow>
            s\<lparr>d_table := t, d_map := (d_map s)(sh_id household \<mapsto> localId),
              d_count := Suc (d_count s)\<rparr>)"

text \<open>The two \<^verbatim>\<open>if (citizen.photo_url)\<close> and \<^verbatim>\<open>if (citizen.fingerprint_url)\<close> blocks.\<close>

definition fetch_photo :: "env \<Rightarrow> (url \<times> string) list \<Rightarrow> SupabaseCitizen \<Rightarrow> Citizen \<Rightarrow> Citizen"
  where
  "fetch_photo e storage citizen localCitizen =
     (case sc_photo_url citizen of
        None \<Rightarrow> localCitizen
      | Some photoUrl \<Rightarrow>
          let photoData = downloadPhotoFromStorage e storage photoUrl in
          if truthy_str photoData then localCitizen\<lparr>c_photoData := photoData\<rparr>
          else localCitizen)"

definition fetch_fingerprint ::
  "env \<Rightarrow> (url \<times> string) list \<Rightarrow> SupabaseCitizen \<Rightarrow> Citizen \<Rightarrow> Citizen" where
  "fetch_fingerprint e storage citizen localCitizen =
     (case sc_fingerprint_url citizen of
        None \<Rightarrow> localCitizen
      | Some fingerprintUrl \<Rightarrow>
          let fingerprintData = downloadFingerprintFromStorage e storage fingerprintUrl in
          if truthy_str fingerprintData
          then localCitizen\<lparr>c_fingerprintData := fingerprintData\<rparr>
          else localCitizen)"

text \<open>The citizens loop keeps no map and does not look at the key that \<^verbatim>\<open>add\<close> returns.\<close>

definition download_citizen ::
  "env \<Rightarrow> (url \<times> string) list \<Rightarrow> (uuid \<rightharpoonup> nat) \<Rightarrow> (uuid \<rightharpoonup> nat) \<Rightarrow> (uuid \<rightharpoonup> nat)
     \<Rightarrow> SupabaseCitizen \<Rightarrow> Citizen down \<Rightarrow> Citizen down" where
  "download_citizen e storage wardUuidToLocalId villageUuidToLocalId householdUuidToLocalId
       citizen s =
     (if \<not> truthy_num (householdUuidToLocalId (sc_household_id citizen))
         \<or> \<not> truthy_num (villageUuidToLocalId (sc_village_id citizen))
         \<or> \<not> truthy_num (wardUuidToLocalId (sc_ward_id citizen))
      then s\<lparr>d_errors := d_errors s @ [ParentNotFound T_citizens (sc_unique_id citizen)]\<rparr>
      else
        let localHouseholdId = the (householdUuidToLocalId (sc_household_id citizen));
            localVillageId = the (villageUuidToLocalId (sc_village_id citizen));
            localWardId = the (wardUuidToLocalId (sc_ward_id citizen));
            existing = first_where c_uniqueId (d_table s) (sc_unique_id citizen);
            localCitizen =
              fetch_fingerprint e storage citizen
                (fetch_photo e storage citizen
                  (supabaseToCitizen citizen localHouseholdId localVillageId localWardId))
        in s\<lparr>d_table :=
               (case existing of
                  Some ex \<Rightarrow> update_row (d_table s) (fst ex) localCitizen
                | None \<Rightarrow> fst (add_row (d_table s) localCitizen)),
             d_count := Suc (d_count s)\<rparr>)"

subsection \<open>restoreFromSupabase\<close>

text \<open>
  \<^verbatim>\<open>.select('*').order('created_at', { ascending: true })\<close> and what the code does with
  its result: a rejected call leaves through the outer \<^verbatim>\<open>catch\<close>, an error value is pushed
  and the tier is skipped, and otherwise the rows are processed oldest first.
\<close>

definition ordered :: "('r \<Rightarrow> int) \<Rightarrow> 'r list \<Rightarrow> 'r list" where
  "ordered created table = sort_key created table"

definition download_tier ::
  "env \<Rightarrow> tbl \<Rightarrow> ('r \<Rightarrow> int) \<Rightarrow> ('r \<Rightarrow> 'a down \<Rightarrow> 'a down) \<Rightarrow> 'r list \<Rightarrow> 'a down
     \<Rightarrow> exn + 'a down" where
  "download_tier e t created step table s =
     (case select_outcome e t of
        Throws \<Rightarrow> Inl Rejected
      | ErrorValue \<Rightarrow> Inr (s\<lparr>d_errors := d_errors s @ [FetchFailed t]\<rparr>)
      | Ok \<Rightarrow> Inr (fold step (ordered created table) s))"

definition download_wards :: "env \<Rightarrow> SupabaseWard list \<Rightarrow> Ward down \<Rightarrow> exn + Ward down" where
  "download_wards e table s = download_tier e T_wards sw_created_at download_ward table s"

definition download_villages ::
  "env \<Rightarrow> (uuid \<rightharpoonup> nat) \<Rightarrow> SupabaseVillage list \<Rightarrow> Village down \<Rightarrow> exn + Village down" where
  "download_villages e wardUuidToLocalId table s =
     download_tier e T_villages sv_created_at (download_village wardUuidToLocalId) table s"

definition download_households ::
  "env \<Rightarrow> (uuid \<rightharpoonup> nat) \<Rightarrow> SupabaseHousehold list \<Rightarrow> Household down
     \<Rightarrow> exn + Household down" where
  "download_households e villageUuidToLocalId table s =
     download_tier e T_households sh_created_at (download_household villageUuidToLocalId)
       table s"

definition download_citizens ::
  "env \<Rightarrow> (url \<times> string) list \<Rightarrow> (uuid \<rightharpoonup> nat) \<Rightarrow> (uuid \<rightharpoonup> nat) \<Rightarrow> (uuid \<rightharpoonup> nat)
     \<Rightarrow> SupabaseCitizen list \<Rightarrow> Citizen down \<Rightarrow> exn + Citizen down" where
  "download_citizens e storage wardUuidToLocalId villageUuidToLocalId householdUuidToLocalId
       table s =
     download_tier e T_citizens sc_created_at
       (download_citizen e storage wardUuidToLocalId villageUuidToLocalId
          householdUuidToLocalId)
       table s"

text \<open>
  How far the body of the outer \<^verbatim>\<open>try\<close> got: the local store, the counters and the
  errors at the point where it ended, and the exception if it ended in the outer
  \<^verbatim>\<open>catch\<close>.
\<close>

record progress =
  p_local :: local_db
  p_counts :: counts
  p_errors :: "sync_error list"
  p_thrown :: "exn option"

definition download_all :: "env \<Rightarrow> world \<Rightarrow> progress" where
  "download_all e w =
     (let loc = w_local w; rem = w_remote w in
      case download_wards e (r_wards rem)
             \<lparr>d_table = l_wards loc, d_map = Map.empty, d_count = 0, d_errors = []\<rparr> of
        Inl x \<Rightarrow>
          \<lparr>p_local = loc, p_counts = no_counts, p_errors = [], p_thrown = Some x\<rparr>
      | Inr dw \<Rightarrow>
     (let loc1 = loc\<lparr>l_wards := d_table dw\<rparr>;
          n1 = no_counts\<lparr>wards := d_count dw\<rparr> in
      case download_villages e (d_map dw) (r_villages rem)
             \<lparr>d_table = l_villages loc, d_map = Map.empty, d_count = 0,
              d_errors = d_errors dw\<rparr> of
        Inl x \<Rightarrow>
          \<lparr>p_local = loc1, p_counts = n1, p_errors = d_errors dw, p_thrown = Some x\<rparr>
      | Inr dv \<Rightarrow>
     (let loc2 = loc1\<lparr>l_villages := d_table dv\<rparr>;
          n2 = n1\<lparr>villages := d_count dv\<rparr> in
      case download_households e (d_map dv) (r_households rem)
             \<lparr>d_table = l_households loc, d_map = Map.empty, d_count = 0,
              d_errors = d_errors dv\<rparr> of
        Inl x \<Rightarrow>
          \<lparr>p_local = loc2, p_counts = n2, p_errors = d_errors dv, p_thrown = Some x\<rparr>
      | Inr dh \<Rightarrow>
     (let loc3 = loc2\<lparr>l_households := d_table dh\<rparr>;
          n3 = n2\<lparr>households := d_count dh\<rparr> in
      case download_citizens e (r_storage rem) (d_map dw) (d_map dv) (d_map dh)
             (r_citizens rem)
             \<lparr>d_table = l_citizens loc, d_map = Map.empty, d_count = 0,
              d_errors = d_errors dh\<rparr> of
        Inl x \<Rightarrow>
          \<lparr>p_local = loc3, p_counts = n3, p_errors = d_errors dh, p_thrown = Some x\<rparr>
      | Inr dc \<Rightarrow>
          \<lparr>p_local = loc3\<lparr>l_citizens := d_table dc\<rparr>,
           p_counts = n3\<lparr>citizens := d_count dc\<rparr>,
           p_errors = d_errors dc, p_thrown = None\<rparr>))))"

definition restoreFromSupabase :: "env \<Rightarrow> world \<Rightarrow> world \<times> SyncResult" where
  "restoreFromSupabase e w =
     (if \<not> onLine e then
        (w, initial_result\<lparr>errors := errors initial_result @ [RunFailed NoInternet],
                           success := False\<rparr>)
      else
        let p = download_all e w in
        case p_thrown p of
          Some x \<Rightarrow>
            (w\<lparr>w_local := p_local p\<rparr>,
             initial_result\<lparr>downloaded := p_counts p,
                            errors := p_errors p @ [RunFailed x],
                            success := False\<rparr>)
        | None \<Rightarrow>
            (w\<lparr>w_local :=
                 (p_local p)\<lparr>l_settings :=
                   (l_settings (p_local p))\<lparr>last_sync_time := Some (now e)\<rparr>\<rparr>\<rparr>,
             initial_result\<lparr>downloaded := p_counts p,
                            errors := p_errors p,
                            success := (length (p_errors p) = 0)\<rparr>))"

section \<open>The dialog's gate (handleSync and handleRestore in src/components/SupabaseSync.tsx)\<close>

text \<open>\<^verbatim>\<open>checkSupabaseConnection\<close>: a count query on the wards table; true when it resolves
  without an error.\<close>

definition checkSupabaseConnection :: "env \<Rightarrow> bool" where
  "checkSupabaseConnection e = (case select_outcome e T_wards of Ok \<Rightarrow> True | _ \<Rightarrow> False)"

text \<open>
  \<open>isOnline\<close> and \<open>supabaseReachable\<close> are the dialog's state: the second is the result of
  \<^verbatim>\<open>checkSupabaseConnection\<close> when the dialog was opened.  A handler that returns early
  starts no run and sets no result.
\<close>

definition handleSync :: "bool \<Rightarrow> bool \<Rightarrow> env \<Rightarrow> world \<Rightarrow> world \<times> SyncResult option" where
  "handleSync isOnline supabaseReachable e w =
     (if \<not> isOnline then (w, None)
      else if \<not> supabaseReachable then (w, None)
      else case syncToSupabase e w of (w', result) \<Rightarrow> (w', Some result))"

definition handleRestore :: "bool \<Rightarrow> bool \<Rightarrow> bool \<Rightarrow> env \<Rightarrow> world \<Rightarrow> world \<times> SyncResult option"
  where
  "handleRestore isOnline supabaseReachable confirmed e w =
     (if \<not> isOnline then (w, None)
      else if \<not> supabaseReachable then (w, None)
      else if \<not> confirmed then (w, None)
      else case restoreFromSupabase e w of (w', result) \<Rightarrow> (w', Some result))"

section \<open>Invariants of the stores\<close>

text \<open>
  The primary key of a local table: the keys of its rows are pairwise different and
  smaller than the next key the table hands out.
\<close>

definition wf_table :: "'a table \<Rightarrow> bool" where
  "wf_table t \<longleftrightarrow>
     distinct (map fst (rows t)) \<and> list_all (\<lambda>i. i < next_id t) (map fst (rows t))"

text \<open>
  \<open>keeps key ks t t'\<close>: going from \<open>t\<close> to \<open>t'\<close> no key of a row is lost and, on a
  table with a primary key, every row whose natural key is not in \<open>ks\<close> is still there
  as it was.
\<close>

definition keeps :: "('a \<Rightarrow> string) \<Rightarrow> string set \<Rightarrow> 'a table \<Rightarrow> 'a table \<Rightarrow> bool" where
  "keeps key ks t t' \<longleftrightarrow>
     fst ` set (rows t) \<subseteq> fst ` set (rows t')
     \<and> (wf_table t \<longrightarrow>
          wf_table t' \<and> (\<forall>p \<in> set (rows t). key (snd p) \<notin> ks \<longrightarrow> p \<in> set (rows t')))"











text \<open>The three parents of a citizen, when all of them are in the maps.\<close>

definition parents ::
  "(nat \<rightharpoonup> uuid) \<Rightarrow> (nat \<rightharpoonup> uuid) \<Rightarrow> (nat \<rightharpoonup> uuid) \<Rightarrow> Citizen \<Rightarrow> (uuid \<times> uuid \<times> uuid) option"
  where
  "parents wardIdMap villageIdMap householdIdMap c =
     (case (householdIdMap (c_householdId c), villageIdMap (c_villageId c),
            wardIdMap (c_wardId c)) of
        (Some householdUuid, Some villageUuid, Some wardUuid) \<Rightarrow>
          Some (householdUuid, villageUuid, wardUuid)
      | _ \<Rightarrow> None)"



section \<open>Concrete records used in the scenarios\<close>

text \<open>The time zone of the scenarios is UTC.\<close>

definition utc :: "int \<Rightarrow> int" where
  "utc ms = 0"

text \<open>The candidate of the fuzzy match scenario: \<^verbatim>\<open>{firstName: "Jon", lastName: "Smith"}\<close>.\<close>

definition candidate_jon :: PartialCitizen where
  "candidate_jon =
     \<lparr>p_firstName = Some ''Jon'', p_lastName = Some ''Smith'', p_phoneNumber = None,
      p_dateOfBirth = None, p_householdId = None, p_villageId = None\<rparr>"

text \<open>The stored record of the scenario:
  \<^verbatim>\<open>{firstName: "John", lastName: "Smith", phone: "555-0001"}\<close>.\<close>

definition existing_john :: Citizen where
  "existing_john =
     \<lparr>c_uniqueId = ''W01-V01-000001'', c_householdId = 1, c_villageId = 1, c_wardId = 1,
      c_firstName = ''John'', c_lastName = ''Smith'', c_otherNames = None, c_sex = male,
      c_dateOfBirth = None, c_age = None, c_phoneNumber = Some ''555-0001'',
      c_occupation = None, c_disabilityStatus = none, c_disabilityNotes = None,
      c_photoData = None, c_fingerprintData = None, c_notes = None, c_consentGiven = True,
      c_consentDate = None, c_recorderName = None, c_createdAt = Date 0,
      c_updatedAt = Date 0\<rparr>"


text \<open>An environment in which the device is online and every call succeeds.\<close>

definition reliable :: env where
  "reliable =
     \<lparr>onLine = True, now = 1000,
      single_outcome = (\<lambda>t k. Ok), write_outcome = (\<lambda>t k. Ok),
      select_outcome = (\<lambda>t. Ok), upload_outcome = (\<lambda>b k. Ok),
      fetch_fails = (\<lambda>u. False), missing_body = ''not found'',
      device_suffix = ''1000-abc1234''\<rparr>"

definition empty_table :: "'a table" where
  "empty_table = \<lparr>rows = [], next_id = 1\<rparr>"

definition empty_remote :: remote_db where
  "empty_remote =
     \<lparr>r_wards = [], r_villages = [], r_households = [], r_citizens = [], r_storage = []\<rparr>"

definition empty_local :: local_db where
  "empty_local =
     \<lparr>l_wards = empty_table, l_villages = empty_table, l_households = empty_table,
      l_citizens = empty_table,
      l_settings = \<lparr>sync_device_id = None, last_sync_time = None\<rparr>\<rparr>"

text \<open>The records of the end-to-end scenario: Area W01 "North", Subarea V01 "Lakeside",
  Unit H001 with head "Doe", and Member Jane Doe with phone 5551234.\<close>

definition ward_W01 :: Ward where
  "ward_W01 = \<lparr>w_code = ''W01'', w_name = ''North'', w_createdAt = Date 10\<rparr>"

definition village_V01 :: Village where
  "village_V01 =
     \<lparr>v_wardId = 1, v_code = ''V01'', v_name = ''Lakeside'', v_createdAt = Date 20\<rparr>"

definition household_H001 :: Household where
  "household_H001 =
     \<lparr>h_villageId = 1, h_code = ''H001'', h_headName = ''Doe'',
      h_locationDescription = None, h_latitude = None, h_longitude = None,
      h_createdAt = Date 30, h_updatedAt = Date 30\<rparr>"

definition jane_doe :: Citizen where
  "jane_doe =
     \<lparr>c_uniqueId = ''W01-V01-000001'', c_householdId = 1, c_villageId = 1, c_wardId = 1,
      c_firstName = ''Jane'', c_lastName = ''Doe'', c_otherNames = None, c_sex = female,
      c_dateOfBirth = None, c_age = None, c_phoneNumber = Some ''5551234'',
      c_occupation = None, c_disabilityStatus = none, c_disabilityNotes = None,
      c_photoData = None, c_fingerprintData = None, c_notes = None, c_consentGiven = True,
      c_consentDate = None, c_recorderName = None, c_createdAt = Date 40,
      c_updatedAt = Date 40\<rparr>"

definition scenario_local :: local_db where
  "scenario_local =
     \<lparr>l_wards = \<lparr>rows = [(1, ward_W01)], next_id = 2\<rparr>,
      l_villages = \<lparr>rows = [(1, village_V01)], next_id = 2\<rparr>,
      l_households = \<lparr>rows = [(1, household_H001)], next_id = 2\<rparr>,
      l_citizens = \<lparr>rows = [(1, jane_doe)], next_id = 2\<rparr>,
      l_settings = \<lparr>sync_device_id = None, last_sync_time = None\<rparr>\<rparr>"

definition scenario_world :: world where
  "scenario_world = \<lparr>w_local = scenario_local, w_remote = empty_remote, w_uuid = 100\<rparr>"

text \<open>
  The device is online but the remote store cannot be reached: every call of the remote
  client resolves with an error value, and every \<^verbatim>\<open>fetch\<close> of a stored object rejects.
\<close>

definition unreachable :: env where
  "unreachable =
     reliable\<lparr>single_outcome := (\<lambda>t k. ErrorValue), write_outcome := (\<lambda>t k. ErrorValue),
              select_outcome := (\<lambda>t. ErrorValue), upload_outcome := (\<lambda>b k. ErrorValue),
              fetch_fails := (\<lambda>u. True)\<rparr>"

definition offline :: env where
  "offline = reliable\<lparr>onLine := False\<rparr>"

text \<open>The result of a run that found the device offline.\<close>

definition offline_result :: SyncResult where
  "offline_result =
     \<lparr>success = False, uploaded = no_counts, downloaded = no_counts,
      errors = [RunFailed NoInternet]\<rparr>"


text \<open>The storage uploads resolve with an error value; everything else succeeds.\<close>

definition storage_fails :: env where
  "storage_fails = reliable\<lparr>upload_outcome := (\<lambda>b k. ErrorValue)\<rparr>"

definition jane_with_photo :: Citizen where
  "jane_with_photo = jane_doe\<lparr>c_photoData := Some ''data:image/jpeg;base64,AAAA''\<rparr>"

definition photo_world :: world where
  "photo_world =
     scenario_world\<lparr>w_local :=
       scenario_local\<lparr>l_citizens := \<lparr>rows = [(1, jane_with_photo)], next_id = 2\<rparr>\<rparr>\<rparr>"

text \<open>The state of a loop that has not run yet.\<close>

definition up0 :: "'r up" where
  "up0 = \<lparr>u_table = [], u_map = Map.empty, u_uuid = 100, u_count = 0, u_errors = []\<rparr>"

definition up_citizens0 :: up_citizens where
  "up_citizens0 =
     \<lparr>u_table = [], u_map = Map.empty, u_uuid = 100, u_count = 0, u_errors = [],
      u_storage = [], u_settings = \<lparr>sync_device_id = None, last_sync_time = None\<rparr>\<rparr>"

definition down0 :: "'a down" where
  "down0 = \<lparr>d_table = empty_table, d_map = Map.empty, d_count = 0, d_errors = []\<rparr>"

text \<open>The remote rows of W01 and V01 when the supply of fresh identifiers is at 100.\<close>

definition remote_W01 :: SupabaseWard where
  "remote_W01 =
     \<lparr>sw_id = 100, sw_code = ''W01'', sw_name = ''North'', sw_created_at = 10,
      sw_updated_at = None\<rparr>"

definition remote_V01 :: SupabaseVillage where
  "remote_V01 =
     \<lparr>sv_id = 101, sv_ward_id = 100, sv_code = ''V01'', sv_name = ''Lakeside'',
      sv_created_at = 20, sv_updated_at = None\<rparr>"

definition remote_H001 :: SupabaseHousehold where
  "remote_H001 =
     \<lparr>sh_id = 102, sh_village_id = 101, sh_code = ''H001'', sh_head_name = ''Doe'',
      sh_location_description = None, sh_latitude = None, sh_longitude = None,
      sh_created_at = 30, sh_updated_at = 30\<rparr>"

definition remote_jane :: SupabaseCitizen where
  "remote_jane =
     \<lparr>sc_id = 103, sc_unique_id = ''W01-V01-000001'', sc_household_id = 102,
      sc_village_id = 101, sc_ward_id = 100, sc_first_name = ''Jane'',
      sc_last_name = ''Doe'', sc_other_names = None, sc_sex = female,
      sc_date_of_birth = None, sc_age = None, sc_phone_number = Some ''5551234'',
      sc_occupation = None, sc_disability_status = none, sc_disability_notes = None,
      sc_photo_url = None, sc_fingerprint_url = None, sc_consent_given = True,
      sc_consent_date = None, sc_recorder_name = None, sc_notes = None,
      sc_created_at = 40, sc_updated_at = 40, sc_synced_at = Some 1000,
      sc_device_id = Some ''device-1000-abc1234''\<rparr>"

text \<open>Maps that know no parent at all.\<close>

definition no_uuids :: "nat \<rightharpoonup> uuid" where
  "no_uuids = Map.empty"

definition no_ids :: "uuid \<rightharpoonup> nat" where
  "no_ids = Map.empty"

text \<open>The maps of the scenario after the first three loops, in both directions.\<close>

definition ward_uuids :: "nat \<rightharpoonup> uuid" where
  "ward_uuids = [1 \<mapsto> 100]"

definition village_uuids :: "nat \<rightharpoonup> uuid" where
  "village_uuids = [1 \<mapsto> 101]"

definition household_uuids :: "nat \<rightharpoonup> uuid" where
  "household_uuids = [1 \<mapsto> 102]"

definition up_citizens1 :: up_citizens where
  "up_citizens1 = up_citizens0\<lparr>u_uuid := 103\<rparr>"

text \<open>A device that holds records of its own (W02, V02, H002 and one citizen) while the
  remote store holds the scenario's records.\<close>

definition ward_W02 :: Ward where
  "ward_W02 = \<lparr>w_code = ''W02'', w_name = ''South'', w_createdAt = Date 50\<rparr>"

definition village_V02 :: Village where
  "village_V02 =
     \<lparr>v_wardId = 1, v_code = ''V02'', v_name = ''Hillside'', v_createdAt = Date 60\<rparr>"

definition household_H002 :: Household where
  "household_H002 = household_H001\<lparr>h_code := ''H002'', h_headName := ''Kila''\<rparr>"

definition mary_kila :: Citizen where
  "mary_kila =
     jane_doe\<lparr>c_uniqueId := ''W02-V02-000001'', c_firstName := ''Mary'',
              c_lastName := ''Kila''\<rparr>"

definition scenario_remote :: remote_db where
  "scenario_remote =
     \<lparr>r_wards = [remote_W01], r_villages = [remote_V01], r_households = [remote_H001],
      r_citizens = [remote_jane], r_storage = []\<rparr>"

definition other_device :: world where
  "other_device =
     \<lparr>w_local =
        \<lparr>l_wards = \<lparr>rows = [(1, ward_W02)], next_id = 2\<rparr>,
         l_villages = \<lparr>rows = [(1, village_V02)], next_id = 2\<rparr>,
         l_households = \<lparr>rows = [(1, household_H002)], next_id = 2\<rparr>,
         l_citizens = \<lparr>rows = [(1, mary_kila)], next_id = 2\<rparr>,
         l_settings = \<lparr>sync_device_id = None, last_sync_time = None\<rparr>\<rparr>,
      w_remote = scenario_remote, w_uuid = 200\<rparr>"


section \<open>Properties of duplicate detection\<close>

lemma contribute_acc_of:
  "contribute r s (acc_of cs) = acc_of (cs @ [(r, s)])"
  by (simp add: contribute_def acc_of_def)

lemma check_firstName_acc_of:
  "check_firstName new ex (acc_of cs) =
     acc_of (cs @
       (if truthy_str (p_firstName new) \<and> c_firstName ex \<noteq> []
           \<and> stringSimilarity (the (p_firstName new)) (c_firstName ex) > 8 / 10
        then [(FirstNameSimilar
                (Math_round (stringSimilarity (the (p_firstName new)) (c_firstName ex) * 100)),
               stringSimilarity (the (p_firstName new)) (c_firstName ex))]
        else []))"
  by (simp add: check_firstName_def contribute_acc_of Let_def)

lemma check_lastName_acc_of:
  "check_lastName new ex (acc_of cs) =
     acc_of (cs @
       (if truthy_str (p_lastName new) \<and> c_lastName ex \<noteq> []
           \<and> stringSimilarity (the (p_lastName new)) (c_lastName ex) > 8 / 10
        then [(LastNameSimilar
                (Math_round (stringSimilarity (the (p_lastName new)) (c_lastName ex) * 100)),
               stringSimilarity (the (p_lastName new)) (c_lastName ex))]
        else []))"
  by (simp add: check_lastName_def contribute_acc_of Let_def)

lemma check_phone_acc_of:
  "check_phone new ex (acc_of cs) =
     acc_of (cs @
       (if truthy_str (p_phoneNumber new) \<and> truthy_str (c_phoneNumber ex)
           \<and> digits_only (the (p_phoneNumber new)) = digits_only (the (c_phoneNumber ex))
           \<and> digits_only (the (p_phoneNumber new)) \<noteq> []
        then [(SamePhoneNumber, 1)] else []))"
  by (auto simp add: check_phone_def contribute_acc_of Let_def)

lemma check_dateOfBirth_acc_of:
  "check_dateOfBirth tz new ex (acc_of cs) =
     acc_of (cs @
       (if p_dateOfBirth new \<noteq> None \<and> c_dateOfBirth ex \<noteq> None
           \<and> toDateString tz (the (p_dateOfBirth new)) = toDateString tz (the (c_dateOfBirth ex))
        then [(SameDateOfBirth, 1)] else []))"
  by (cases "p_dateOfBirth new"; cases "c_dateOfBirth ex")
     (simp_all add: check_dateOfBirth_def contribute_acc_of)

lemma check_household_acc_of:
  "check_household new ex (acc_of cs) =
     acc_of (cs @
       (if truthy_num (p_householdId new) \<and> c_householdId ex \<noteq> 0
           \<and> the (p_householdId new) = c_householdId ex
        then [(SameHousehold, 5 / 10)] else []))"
  by (simp add: check_household_def contribute_acc_of)

lemma check_village_acc_of:
  "check_village new ex (acc_of cs) =
     acc_of (cs @
       (if truthy_num (p_villageId new) \<and> c_villageId ex \<noteq> 0
           \<and> the (p_villageId new) = c_villageId ex
        then [(SameVillage, 3 / 10)] else []))"
  by (simp add: check_village_def contribute_acc_of)

lemma signals_contributions:
  "signals tz new ex = acc_of (contributions tz new ex)"
proof -
  have start: "([], 0, 0) = acc_of []"
    by (simp add: acc_of_def)
  show ?thesis
    unfolding signals_def start check_firstName_acc_of check_lastName_acc_of
      check_phone_acc_of check_dateOfBirth_acc_of check_household_acc_of
      check_village_acc_of contributions_def
    by (simp only: append_Nil append_assoc)
qed

lemma report_contributions:
  "report tz new threshold existing =
     (if threshold \<le> score_of (contributions tz new (snd existing))
         \<and> 2 \<le> length (contributions tz new (snd existing))
      then [\<lparr>dm_citizen = existing,
             matchScore = score_of (contributions tz new (snd existing)),
             matchReasons = map fst (contributions tz new (snd existing))\<rparr>]
      else [])"
  by (auto simp add: report_def signals_contributions acc_of_def score_of_def Let_def)





lemma Math_round_100: "Math_round 100 = 100"
  by code_simp

lemma similarity_Jon_John: "stringSimilarity ''Jon'' ''John'' = 3 / 4"
  by code_simp

lemma similarity_Smith_Smith: "stringSimilarity ''Smith'' ''Smith'' = 1"
  by code_simp

text \<open>
  Claim C8, as stated, fails: on the scenario's input the first-name similarity is
  \<open>1 - 1/4 = 0.75\<close>, which does not exceed the 0.8 gate, and \<open>findDuplicates\<close> reports
  no match instead of one.
\<close>

theorem fuzzy_scenario_counterexample:
  "stringSimilarity ''Jon'' ''John'' = 3 / 4
   \<and> \<not> stringSimilarity ''Jon'' ''John'' > 8 / 10
   \<and> length (findDuplicates utc [(1, existing_john)] candidate_jon (6 / 10)) \<noteq> 1"
proof -
  have "findDuplicates utc [(1, existing_john)] candidate_jon (6 / 10) = []"
    unfolding candidate_jon_def existing_john_def by code_simp
  then show ?thesis
    by (simp add: similarity_Jon_John)
qed

text \<open>
  Claim C8, amended.  For the candidate \<^verbatim>\<open>{firstName: "Jon", lastName: "Smith"}\<close> and a
  store holding one record with first name "John", last name "Smith" and phone
  "555-0001", \<open>findDuplicates\<close> with threshold 0.6 reports no match: the first-name
  similarity is 0.75, below the gate, so the exact last-name match is the only
  contributing signal and the two-signal rule excludes the record.
\<close>

theorem fuzzy_scenario_amended:
  assumes "p_firstName new = Some ''Jon''" and "p_lastName new = Some ''Smith''"
    and "p_phoneNumber new = None" and "p_dateOfBirth new = None"
    and "p_householdId new = None" and "p_villageId new = None"
    and "c_firstName ex = ''John''" and "c_lastName ex = ''Smith''"
    and "c_phoneNumber ex = Some ''555-0001''"
  shows "contributions tz new ex = [(LastNameSimilar 100, 1)]
    \<and> findDuplicates tz [(i, ex)] new (6 / 10) = []"
proof -
  have c: "contributions tz new ex = [(LastNameSimilar 100, 1)]"
    using assms
    by (simp add: contributions_def truthy_str_def truthy_num_def similarity_Jon_John
        similarity_Smith_Smith Math_round_100)
  have "report tz new (6 / 10) (i, ex) = []"
    unfolding report_contributions by (simp add: c)
  then show ?thesis
    by (simp add: c findDuplicates_def)
qed

theorem fuzzy_scenario_amended_witness:
  "p_firstName candidate_jon = Some ''Jon'' \<and> p_lastName candidate_jon = Some ''Smith''
   \<and> c_firstName existing_john = ''John'' \<and> c_lastName existing_john = ''Smith''
   \<and> c_phoneNumber existing_john = Some ''555-0001''
   \<and> contributions utc candidate_jon existing_john = [(LastNameSimilar 100, 1)]
   \<and> findDuplicates utc [(1, existing_john)] candidate_jon (6 / 10) = []"
  using fuzzy_scenario_amended [of candidate_jon existing_john utc 1]
  by (simp add: candidate_jon_def existing_john_def)

section \<open>Properties of the two entry points\<close>

text \<open>
  Claim C4.  For every run of upload and every run of download, the returned result has
  \<open>success\<close> true exactly when its error list is empty.
\<close>

theorem success_iff_no_errors:
  "(success (snd (syncToSupabase e w)) \<longleftrightarrow> errors (snd (syncToSupabase e w)) = [])
   \<and> (success (snd (restoreFromSupabase e w)) \<longleftrightarrow>
        errors (snd (restoreFromSupabase e w)) = [])"
proof
  show "success (snd (syncToSupabase e w)) \<longleftrightarrow> errors (snd (syncToSupabase e w)) = []"
    by (simp add: syncToSupabase_def initial_result_def split: prod.split)
  show "success (snd (restoreFromSupabase e w)) \<longleftrightarrow>
      errors (snd (restoreFromSupabase e w)) = []"
    by (simp add: restoreFromSupabase_def initial_result_def Let_def split: option.split)
qed

text \<open>
  Claim C5, as stated, fails for the unreachable remote store: the run does not check
  reachability.  With every remote call resolving with an error value, the upload of the
  end-to-end scenario's records reports four uploads and success, writes the local
  settings, and leaves the remote store empty.
\<close>

theorem unreachable_upload_counterexample:
  "onLine unreachable
   \<and> \<not> checkSupabaseConnection unreachable
   \<and> success (snd (syncToSupabase unreachable scenario_world))
   \<and> uploaded (snd (syncToSupabase unreachable scenario_world))
       = \<lparr>wards = 1, villages = 1, households = 1, citizens = 1\<rparr>
   \<and> w_remote (fst (syncToSupabase unreachable scenario_world)) = empty_remote
   \<and> last_sync_time (l_settings (w_local (fst (syncToSupabase unreachable scenario_world))))
       = Some 1000
   \<and> last_sync_time (l_settings (w_local scenario_world)) = None"
  by code_simp

text \<open>
  Claim C5, amended.  When \<^verbatim>\<open>navigator.onLine\<close> is false, upload and download fail before
  anything else runs: both stores are unchanged and the result reports no uploads, no
  downloads, \<open>success = False\<close> and the one error.  The entry points do not check whether
  the remote store can be reached; the dialog's handlers do, from the state they were
  given, and then start no run: the stores are unchanged and no result is set.
\<close>

theorem fatal_prechecks:
  "(\<not> onLine e \<longrightarrow>
      syncToSupabase e w = (w, offline_result)
      \<and> restoreFromSupabase e w = (w, offline_result))
   \<and> (\<not> isOnline \<or> \<not> supabaseReachable \<longrightarrow>
      handleSync isOnline supabaseReachable e w = (w, None)
      \<and> handleRestore isOnline supabaseReachable confirmed e w = (w, None))"
  by (simp add: syncToSupabase_def restoreFromSupabase_def handleSync_def handleRestore_def
      offline_result_def initial_result_def)

theorem fatal_prechecks_witness:
  "\<not> onLine offline
   \<and> syncToSupabase offline scenario_world = (scenario_world, offline_result)
   \<and> restoreFromSupabase offline scenario_world = (scenario_world, offline_result)
   \<and> \<not> checkSupabaseConnection unreachable
   \<and> handleSync True (checkSupabaseConnection unreachable) unreachable scenario_world
       = (scenario_world, None)
   \<and> handleRestore True (checkSupabaseConnection unreachable) True unreachable scenario_world
       = (scenario_world, None)"
proof -
  have off: "\<not> onLine offline"
    by (simp add: offline_def reliable_def)
  have unr: "\<not> checkSupabaseConnection unreachable"
    by (simp add: checkSupabaseConnection_def unreachable_def reliable_def)
  from fatal_prechecks [of offline scenario_world True True] off
  have a: "syncToSupabase offline scenario_world = (scenario_world, offline_result)
      \<and> restoreFromSupabase offline scenario_world = (scenario_world, offline_result)"
    by simp
  from fatal_prechecks
    [of unreachable scenario_world True "checkSupabaseConnection unreachable" True] unr
  have b: "handleSync True (checkSupabaseConnection unreachable) unreachable scenario_world
        = (scenario_world, None)
      \<and> handleRestore True (checkSupabaseConnection unreachable) True unreachable
          scenario_world = (scenario_world, None)"
    by simp
  from off unr a b show ?thesis
    by simp
qed

section \<open>Properties of the loop bodies\<close>


lemma remote_write_Ok:
  "write_outcome e t k = Ok \<Longrightarrow>
     remote_write e t k ident patch existing row table =
       Inr (case existing of
              Some i \<Rightarrow> update_eq_id ident patch table i row
            | None \<Rightarrow> insert_row table row)"
  by (simp add: remote_write_def)

lemma draw_fields [simp]:
  "u_table (draw existing s) = u_table s"
  "u_map (draw existing s) = u_map s"
  "u_count (draw existing s) = u_count s"
  "u_errors (draw existing s) = u_errors s"
  by (simp_all add: draw_def split: option.split)






lemma upload_village_no_parent:
  "wardIdMap (v_wardId (snd v)) = None \<Longrightarrow>
     upload_village e wardIdMap v s =
       s\<lparr>u_errors := u_errors s @ [ParentNotFound T_villages (v_code (snd v))]\<rparr>"
  by (simp add: upload_village_def Let_def)

lemma upload_household_no_parent:
  "villageIdMap (h_villageId (snd h)) = None \<Longrightarrow>
     upload_household e villageIdMap h s =
       s\<lparr>u_errors := u_errors s @ [ParentNotFound T_households (h_code (snd h))]\<rparr>"
  by (simp add: upload_household_def Let_def)

lemma upload_citizen_no_parent:
  "householdIdMap (c_householdId (snd c)) = None
     \<or> villageIdMap (c_villageId (snd c)) = None
     \<or> wardIdMap (c_wardId (snd c)) = None \<Longrightarrow>
     upload_citizen e wardIdMap villageIdMap householdIdMap c s =
       s\<lparr>u_errors := u_errors s @ [ParentNotFound T_citizens (c_uniqueId (snd c))]\<rparr>"
  by (auto simp add: upload_citizen_def Let_def split: option.split)

lemma download_village_no_parent:
  "wardUuidToLocalId (sv_ward_id village) = None \<Longrightarrow>
     download_village wardUuidToLocalId village s =
       s\<lparr>d_errors := d_errors s @ [ParentNotFound T_villages (sv_code village)]\<rparr>"
  by (simp add: download_village_def truthy_num_def)

lemma download_household_no_parent:
  "villageUuidToLocalId (sh_village_id household) = None \<Longrightarrow>
     download_household villageUuidToLocalId household s =
       s\<lparr>d_errors := d_errors s @ [ParentNotFound T_households (sh_code household)]\<rparr>"
  by (simp add: download_household_def truthy_num_def)

lemma download_citizen_no_parent:
  "householdUuidToLocalId (sc_household_id citizen) = None
     \<or> villageUuidToLocalId (sc_village_id citizen) = None
     \<or> wardUuidToLocalId (sc_ward_id citizen) = None \<Longrightarrow>
     download_citizen e storage wardUuidToLocalId villageUuidToLocalId householdUuidToLocalId
       citizen s =
       s\<lparr>d_errors := d_errors s @ [ParentNotFound T_citizens (sc_unique_id citizen)]\<rparr>"
  by (auto simp add: download_citizen_def truthy_num_def)

text \<open>
  Claim C3.  In both directions, a record whose parent identifier is absent from the
  session's map is skipped: the loop goes on with the remaining records from a state in
  which nothing has changed but the error list, which has the parent-not-found error
  appended.  The destination table, the map and the counter are as before, so the
  record has not been created.  This holds for villages, households and citizens (for
  which any one of the three parents may be absent), and on download for the loop over
  the rows fetched.
\<close>

theorem missing_parent_is_skipped:
  "(wardIdMap (v_wardId (snd v)) = None \<longrightarrow>
      upload_villages e wardIdMap (v # vs) sv =
        upload_villages e wardIdMap vs
          (sv\<lparr>u_errors := u_errors sv @ [ParentNotFound T_villages (v_code (snd v))]\<rparr>))
   \<and> (villageIdMap (h_villageId (snd h)) = None \<longrightarrow>
      upload_households e villageIdMap (h # hs) sh =
        upload_households e villageIdMap hs
          (sh\<lparr>u_errors := u_errors sh @ [ParentNotFound T_households (h_code (snd h))]\<rparr>))
   \<and> (householdIdMap (c_householdId (snd c)) = None
        \<or> villageIdMap (c_villageId (snd c)) = None
        \<or> wardIdMap (c_wardId (snd c)) = None \<longrightarrow>
      upload_citizens e wardIdMap villageIdMap householdIdMap (c # cs) sc =
        upload_citizens e wardIdMap villageIdMap householdIdMap cs
          (sc\<lparr>u_errors := u_errors sc @ [ParentNotFound T_citizens (c_uniqueId (snd c))]\<rparr>))
   \<and> (wardUuidToLocalId (sv_ward_id rv) = None \<longrightarrow>
      fold (download_village wardUuidToLocalId) (rv # rvs) dv =
        fold (download_village wardUuidToLocalId) rvs
          (dv\<lparr>d_errors := d_errors dv @ [ParentNotFound T_villages (sv_code rv)]\<rparr>))
   \<and> (villageUuidToLocalId (sh_village_id rh) = None \<longrightarrow>
      fold (download_household villageUuidToLocalId) (rh # rhs) dh =
        fold (download_household villageUuidToLocalId) rhs
          (dh\<lparr>d_errors := d_errors dh @ [ParentNotFound T_households (sh_code rh)]\<rparr>))
   \<and> (householdUuidToLocalId (sc_household_id rc) = None
        \<or> villageUuidToLocalId (sc_village_id rc) = None
        \<or> wardUuidToLocalId (sc_ward_id rc) = None \<longrightarrow>
      fold (download_citizen e storage wardUuidToLocalId villageUuidToLocalId
              householdUuidToLocalId) (rc # rcs) dc =
        fold (download_citizen e storage wardUuidToLocalId villageUuidToLocalId
                householdUuidToLocalId) rcs
          (dc\<lparr>d_errors := d_errors dc @ [ParentNotFound T_citizens (sc_unique_id rc)]\<rparr>))"
  by (simp add: upload_villages_def upload_households_def upload_citizens_def
      upload_village_no_parent upload_household_no_parent upload_citizen_no_parent
      download_village_no_parent download_household_no_parent download_citizen_no_parent)

theorem missing_parent_is_skipped_witness:
  "no_uuids (v_wardId (snd (1, village_V01))) = None
   \<and> u_table (upload_villages reliable no_uuids [(1, village_V01)] up0) = []
   \<and> u_errors (upload_villages reliable no_uuids [(1, village_V01)] up0)
       = [ParentNotFound T_villages ''V01'']
   \<and> u_count (upload_villages reliable no_uuids [(1, village_V01)] up0) = 0
   \<and> u_table (upload_households reliable no_uuids [(1, household_H001)] up0) = []
   \<and> u_errors (upload_households reliable no_uuids [(1, household_H001)] up0)
       = [ParentNotFound T_households ''H001'']
   \<and> u_table (upload_citizens reliable no_uuids no_uuids no_uuids [(1, jane_doe)]
                 up_citizens0) = []
   \<and> u_errors (upload_citizens reliable no_uuids no_uuids no_uuids [(1, jane_doe)]
                  up_citizens0) = [ParentNotFound T_citizens ''W01-V01-000001'']
   \<and> rows (d_table (fold (download_village no_ids) [remote_V01] down0)) = []
   \<and> d_errors (fold (download_village no_ids) [remote_V01] down0)
       = [ParentNotFound T_villages ''V01'']
   \<and> rows (d_table (fold (download_household no_ids) [remote_H001] down0)) = []
   \<and> d_errors (fold (download_household no_ids) [remote_H001] down0)
       = [ParentNotFound T_households ''H001'']
   \<and> rows (d_table (fold (download_citizen reliable [] no_ids no_ids no_ids) [remote_jane]
                      down0)) = []
   \<and> d_errors (fold (download_citizen reliable [] no_ids no_ids no_ids) [remote_jane] down0)
       = [ParentNotFound T_citizens ''W01-V01-000001'']"
proof -
  have absent: "no_uuids (v_wardId (snd (1, village_V01))) = None"
    "no_uuids (h_villageId (snd (1, household_H001))) = None"
    "no_uuids (c_householdId (snd (1, jane_doe))) = None"
    "no_ids (sv_ward_id remote_V01) = None"
    "no_ids (sh_village_id remote_H001) = None"
    "no_ids (sc_household_id remote_jane) = None"
    by (simp_all add: no_uuids_def no_ids_def)
  have codes: "v_code village_V01 = ''V01''" "h_code household_H001 = ''H001''"
    "c_uniqueId jane_doe = ''W01-V01-000001''" "sv_code remote_V01 = ''V01''"
    "sh_code remote_H001 = ''H001''" "sc_unique_id remote_jane = ''W01-V01-000001''"
    by (simp_all add: village_V01_def household_H001_def jane_doe_def remote_V01_def
        remote_H001_def remote_jane_def)
  from missing_parent_is_skipped
    [of no_uuids "(1, village_V01)" reliable "[]" up0
        no_uuids "(1, household_H001)" "[]" up0
        no_uuids "(1, jane_doe)" "[]" up_citizens0
        no_ids remote_V01 "[]" down0
        no_ids remote_H001 "[]" down0
        no_ids remote_jane "[]" "[]" down0] absent
  show ?thesis
    by (simp add: codes upload_villages_def upload_households_def upload_citizens_def
        up0_def up_citizens0_def down0_def empty_table_def)
qed

lemma attach_photo_core:
  "fst (attach_photo e c (row, storage))\<lparr>sc_photo_url := None\<rparr> = row\<lparr>sc_photo_url := None\<rparr>"
  by (simp add: attach_photo_def split: prod.split option.split)

lemma attach_fingerprint_core:
  "fst (attach_fingerprint e c (row, storage))\<lparr>sc_fingerprint_url := None\<rparr>
     = row\<lparr>sc_fingerprint_url := None\<rparr>"
  by (simp add: attach_fingerprint_def split: prod.split option.split)

lemma attach_both_core:
  "fst (attach_fingerprint e c (attach_photo e c (row, storage)))
       \<lparr>sc_photo_url := None, sc_fingerprint_url := None\<rparr>
     = row\<lparr>sc_photo_url := None, sc_fingerprint_url := None\<rparr>"
  by (simp add: attach_photo_def attach_fingerprint_def split: prod.split option.split)

lemma attach_photo_failed:
  "upload_outcome e citizen_photos (c_uniqueId c) \<noteq> Ok \<Longrightarrow>
     attach_photo e c p = p"
  by (cases "upload_outcome e citizen_photos (c_uniqueId c)")
     (simp_all add: attach_photo_def uploadPhotoToStorage_def uploadToStorage_def)

lemma attach_fingerprint_failed:
  "upload_outcome e citizen_fingerprints (c_uniqueId c) \<noteq> Ok \<Longrightarrow>
     attach_fingerprint e c p = p"
  by (cases "upload_outcome e citizen_fingerprints (c_uniqueId c)")
     (simp_all add: attach_fingerprint_def uploadFingerprintToStorage_def uploadToStorage_def)

lemma attach_fingerprint_photo_url:
  "sc_photo_url (fst (attach_fingerprint e c p)) = sc_photo_url (fst p)"
  by (simp add: attach_fingerprint_def split: prod.split option.split)

lemma upload_citizen_written:
  assumes "householdIdMap (c_householdId c) = Some householdUuid"
    and "villageIdMap (c_villageId c) = Some villageUuid"
    and "wardIdMap (c_wardId c) = Some wardUuid"
    and "lookup e T_citizens sc_unique_id sc_id (u_table s) (c_uniqueId c) = Inr existing"
    and "citizenToSupabase c householdUuid villageUuid wardUuid existing (u_uuid s)
           (snd (getDeviceId e (u_settings s))) (now e) = Inr core"
    and "write_outcome e T_citizens (c_uniqueId c) = Ok"
  shows "upload_citizen e wardIdMap villageIdMap householdIdMap (i, c) s =
     (draw existing s)
       \<lparr>u_table :=
          (case existing of
             Some x \<Rightarrow> update_eq_id sc_id patch_citizen (u_table s) x
               (fst (attach_fingerprint e c (attach_photo e c (core, u_storage s))))
           | None \<Rightarrow> u_table s @
               [fst (attach_fingerprint e c (attach_photo e c (core, u_storage s)))]),
        u_count := Suc (u_count s),
        u_storage := snd (attach_fingerprint e c (attach_photo e c (core, u_storage s))),
        u_settings := fst (getDeviceId e (u_settings s))\<rparr>"
  using assms
  by (cases existing)
     (simp_all add: upload_citizen_def remote_write_Ok Let_def insert_row_def draw_def
       case_prod_beta)

text \<open>
  Claim C6, as stated, fails in its last part: when an attachment transfer fails, nothing
  is appended to the result.  With the storage uploads resolving with an error value, the
  upload of a Member that has a photo reports one citizen uploaded, an empty error list
  and success; the remote row has no photo URL.
\<close>

theorem attachment_failure_counterexample:
  "truthy_str (c_photoData jane_with_photo)
   \<and> upload_outcome storage_fails citizen_photos (c_uniqueId jane_with_photo) = ErrorValue
   \<and> citizens (uploaded (snd (syncToSupabase storage_fails photo_world))) = 1
   \<and> errors (snd (syncToSupabase storage_fails photo_world)) = []
   \<and> success (snd (syncToSupabase storage_fails photo_world))
   \<and> map sc_photo_url (r_citizens (w_remote (fst (syncToSupabase storage_fails photo_world))))
       = [None]"
  by code_simp

text \<open>
  Claim C6, amended.  For every Member whose core-field upsert succeeds (its parents are
  in the maps, the lookup and the conversion do not throw, the write resolves without an
  error) but whose photo or fingerprint transfer fails, the Member upload counter is
  incremented, the upsert is made with the converted core fields, the URL of a failed
  attachment is left unset, and nothing is appended to the result's error list: the
  failure is not reported in the result.
\<close>

theorem attachment_failure_is_silent:
  assumes parents: "householdIdMap (c_householdId c) = Some householdUuid"
      "villageIdMap (c_villageId c) = Some villageUuid"
      "wardIdMap (c_wardId c) = Some wardUuid"
    and look: "lookup e T_citizens sc_unique_id sc_id (u_table s) (c_uniqueId c)
                 = Inr existing"
    and conv: "citizenToSupabase c householdUuid villageUuid wardUuid existing (u_uuid s)
                 (snd (getDeviceId e (u_settings s))) (now e) = Inr core"
    and wrote: "write_outcome e T_citizens (c_uniqueId c) = Ok"
    and fails: "(truthy_str (c_photoData c)
                   \<and> upload_outcome e citizen_photos (c_uniqueId c) \<noteq> Ok)
                \<or> (truthy_str (c_fingerprintData c)
                   \<and> upload_outcome e citizen_fingerprints (c_uniqueId c) \<noteq> Ok)"
  shows "\<exists>row.
      u_table (upload_citizen e wardIdMap villageIdMap householdIdMap (i, c) s) =
        (case existing of
           Some x \<Rightarrow> update_eq_id sc_id patch_citizen (u_table s) x row
         | None \<Rightarrow> u_table s @ [row])
      \<and> row\<lparr>sc_photo_url := None, sc_fingerprint_url := None\<rparr>
          = core\<lparr>sc_photo_url := None, sc_fingerprint_url := None\<rparr>
      \<and> (upload_outcome e citizen_photos (c_uniqueId c) \<noteq> Ok \<longrightarrow>
           sc_photo_url row = sc_photo_url core)
      \<and> (upload_outcome e citizen_fingerprints (c_uniqueId c) \<noteq> Ok \<longrightarrow>
           sc_fingerprint_url row = sc_fingerprint_url core)
      \<and> u_count (upload_citizen e wardIdMap villageIdMap householdIdMap (i, c) s)
          = Suc (u_count s)
      \<and> u_errors (upload_citizen e wardIdMap villageIdMap householdIdMap (i, c) s)
          = u_errors s"
proof -
  let ?p = "attach_photo e c (core, u_storage s)"
  let ?row = "fst (attach_fingerprint e c ?p)"
  have step: "upload_citizen e wardIdMap villageIdMap householdIdMap (i, c) s =
     (draw existing s)
       \<lparr>u_table :=
          (case existing of
             Some x \<Rightarrow> update_eq_id sc_id patch_citizen (u_table s) x ?row
           | None \<Rightarrow> u_table s @ [?row]),
        u_count := Suc (u_count s),
        u_storage := snd (attach_fingerprint e c ?p),
        u_settings := fst (getDeviceId e (u_settings s))\<rparr>"
    using parents look conv wrote by (rule upload_citizen_written)
  have table: "u_table (upload_citizen e wardIdMap villageIdMap householdIdMap (i, c) s) =
      (case existing of
         Some x \<Rightarrow> update_eq_id sc_id patch_citizen (u_table s) x ?row
       | None \<Rightarrow> u_table s @ [?row])"
    by (simp add: step)
  have core_kept: "?row\<lparr>sc_photo_url := None, sc_fingerprint_url := None\<rparr>
      = core\<lparr>sc_photo_url := None, sc_fingerprint_url := None\<rparr>"
    by (rule attach_both_core)
  have photo: "upload_outcome e citizen_photos (c_uniqueId c) \<noteq> Ok \<longrightarrow>
      sc_photo_url ?row = sc_photo_url core"
    by (simp add: attach_fingerprint_photo_url attach_photo_failed)
  have finger: "upload_outcome e citizen_fingerprints (c_uniqueId c) \<noteq> Ok \<longrightarrow>
      sc_fingerprint_url ?row = sc_fingerprint_url core"
  proof
    assume "upload_outcome e citizen_fingerprints (c_uniqueId c) \<noteq> Ok"
    then have "?row = fst ?p"
      by (simp add: attach_fingerprint_failed)
    then show "sc_fingerprint_url ?row = sc_fingerprint_url core"
      by (simp add: attach_photo_def split: prod.split option.split)
  qed
  have count: "u_count (upload_citizen e wardIdMap villageIdMap householdIdMap (i, c) s)
      = Suc (u_count s)"
    by (simp add: step)
  have errs: "u_errors (upload_citizen e wardIdMap villageIdMap householdIdMap (i, c) s)
      = u_errors s"
    by (simp add: step)
  from table core_kept photo finger count errs show ?thesis
    by blast
qed

theorem attachment_failure_is_silent_witness:
  "household_uuids (c_householdId jane_with_photo) = Some 102
   \<and> village_uuids (c_villageId jane_with_photo) = Some 101
   \<and> ward_uuids (c_wardId jane_with_photo) = Some 100
   \<and> write_outcome storage_fails T_citizens (c_uniqueId jane_with_photo) = Ok
   \<and> truthy_str (c_photoData jane_with_photo)
   \<and> upload_outcome storage_fails citizen_photos (c_uniqueId jane_with_photo) = ErrorValue
   \<and> u_table (upload_citizen storage_fails ward_uuids village_uuids household_uuids
         (1, jane_with_photo) up_citizens1) = [remote_jane]
   \<and> u_count (upload_citizen storage_fails ward_uuids village_uuids household_uuids
         (1, jane_with_photo) up_citizens1) = 1
   \<and> u_errors (upload_citizen storage_fails ward_uuids village_uuids household_uuids
         (1, jane_with_photo) up_citizens1) = []"
proof -
  have parents: "household_uuids (c_householdId jane_with_photo) = Some 102"
    "village_uuids (c_villageId jane_with_photo) = Some 101"
    "ward_uuids (c_wardId jane_with_photo) = Some 100"
    by (simp_all add: household_uuids_def village_uuids_def ward_uuids_def
        jane_with_photo_def jane_doe_def)
  have look: "lookup storage_fails T_citizens sc_unique_id sc_id (u_table up_citizens1)
      (c_uniqueId jane_with_photo) = Inr None"
    by (simp add: lookup_def storage_fails_def reliable_def up_citizens1_def
        up_citizens0_def single_def)
  have conv: "citizenToSupabase jane_with_photo 102 101 100 None (u_uuid up_citizens1)
      (snd (getDeviceId storage_fails (u_settings up_citizens1))) (now storage_fails)
      = Inr remote_jane"
    by code_simp
  have wrote: "write_outcome storage_fails T_citizens (c_uniqueId jane_with_photo) = Ok"
    by (simp add: storage_fails_def reliable_def)
  have photo: "truthy_str (c_photoData jane_with_photo)"
    by (simp add: truthy_str_def jane_with_photo_def)
  have failed: "upload_outcome storage_fails citizen_photos (c_uniqueId jane_with_photo)
      = ErrorValue"
    by (simp add: storage_fails_def reliable_def)
  have fails: "(truthy_str (c_photoData jane_with_photo)
        \<and> upload_outcome storage_fails citizen_photos (c_uniqueId jane_with_photo) \<noteq> Ok)
      \<or> (truthy_str (c_fingerprintData jane_with_photo)
        \<and> upload_outcome storage_fails citizen_fingerprints (c_uniqueId jane_with_photo)
            \<noteq> Ok)"
    using photo failed by simp
  have "\<exists>row.
      u_table (upload_citizen storage_fails ward_uuids village_uuids household_uuids
          (1, jane_with_photo) up_citizens1) =
        (case None of
           Some x \<Rightarrow> update_eq_id sc_id patch_citizen (u_table up_citizens1) x row
         | None \<Rightarrow> u_table up_citizens1 @ [row])
      \<and> row\<lparr>sc_photo_url := None, sc_fingerprint_url := None\<rparr>
          = remote_jane\<lparr>sc_photo_url := None, sc_fingerprint_url := None\<rparr>
      \<and> (upload_outcome storage_fails citizen_photos (c_uniqueId jane_with_photo) \<noteq> Ok
           \<longrightarrow> sc_photo_url row = sc_photo_url remote_jane)
      \<and> (upload_outcome storage_fails citizen_fingerprints (c_uniqueId jane_with_photo)
            \<noteq> Ok \<longrightarrow> sc_fingerprint_url row = sc_fingerprint_url remote_jane)
      \<and> u_count (upload_citizen storage_fails ward_uuids village_uuids household_uuids
          (1, jane_with_photo) up_citizens1) = Suc (u_count up_citizens1)
      \<and> u_errors (upload_citizen storage_fails ward_uuids village_uuids household_uuids
          (1, jane_with_photo) up_citizens1) = u_errors up_citizens1"
    using parents look conv wrote fails by (rule attachment_failure_is_silent)
  then have counted: "u_count (upload_citizen storage_fails ward_uuids village_uuids
        household_uuids (1, jane_with_photo) up_citizens1) = 1
      \<and> u_errors (upload_citizen storage_fails ward_uuids village_uuids household_uuids
        (1, jane_with_photo) up_citizens1) = []"
    by (auto simp add: up_citizens1_def up_citizens0_def)
  have written: "u_table (upload_citizen storage_fails ward_uuids village_uuids
      household_uuids (1, jane_with_photo) up_citizens1) = [remote_jane]"
    by code_simp
  from parents wrote photo failed written counted show ?thesis
    by simp
qed

section \<open>Nothing is deleted\<close>

subsection \<open>Local tables\<close>

lemma keeps_refl: "keeps key ks t t"
  by (simp add: keeps_def)

lemma keeps_trans:
  "keeps key ks1 t t' \<Longrightarrow> keeps key ks2 t' t'' \<Longrightarrow> keeps key (ks1 \<union> ks2) t t''"
  unfolding keeps_def by blast

lemma first_where_Some:
  "first_where key t k = Some ex \<Longrightarrow> ex \<in> set (rows t) \<and> key (snd ex) = k"
  by (auto simp add: first_where_def find_Some_iff)

lemma map_fst_update_row: "map fst (rows (update_row t i r)) = map fst (rows t)"
  by (simp add: update_row_def comp_def if_distrib [of fst] cong: if_cong)

lemma next_id_update_row: "next_id (update_row t i r) = next_id t"
  by (simp add: update_row_def)

lemma wf_update_row: "wf_table t \<Longrightarrow> wf_table (update_row t i r)"
  by (simp add: wf_table_def map_fst_update_row next_id_update_row)

lemma wf_add_row: "wf_table t \<Longrightarrow> wf_table (fst (add_row t r))"
  by (auto simp add: wf_table_def add_row_def list_all_iff)

lemma other_row_update_row:
  assumes "distinct (map fst (rows t))" and "ex \<in> set (rows t)" and "p \<in> set (rows t)"
    and "p \<noteq> ex"
  shows "p \<in> set (rows (update_row t (fst ex) r))"
proof -
  obtain i a where p: "p = (i, a)"
    by (cases p)
  obtain j b where ex: "ex = (j, b)"
    by (cases ex)
  have "i \<noteq> j"
  proof
    assume "i = j"
    with assms(2,3) p ex have "(j, a) \<in> set (rows t)" "(j, b) \<in> set (rows t)"
      by simp_all
    with assms(1) have "a = b"
      by (rule eq_key_imp_eq_value)
    with \<open>i = j\<close> assms(4) p ex show False
      by simp
  qed
  with assms(3) p ex show ?thesis
    by (force simp add: update_row_def)
qed

lemma keeps_update_row:
  assumes "ex \<in> set (rows t)" and "key (snd ex) = k"
  shows "keeps key {k} t (update_row t (fst ex) r)"
proof -
  have ids: "fst ` set (rows t) \<subseteq> fst ` set (rows (update_row t (fst ex) r))"
    using map_fst_update_row [of t "fst ex" r] by (metis order_refl set_map)
  have "p \<in> set (rows (update_row t (fst ex) r))"
    if "wf_table t" and "p \<in> set (rows t)" and "key (snd p) \<notin> {k}" for p
  proof -
    from that(3) assms(2) have "p \<noteq> ex"
      by auto
    with that(1,2) assms(1) show ?thesis
      by (intro other_row_update_row) (simp_all add: wf_table_def)
  qed
  with ids show ?thesis
    by (simp add: keeps_def wf_update_row)
qed

lemma keeps_add_row: "keeps key ks t (fst (add_row t r))"
proof -
  have "set (rows t) \<subseteq> set (rows (fst (add_row t r)))"
    by (auto simp add: add_row_def)
  then show ?thesis
    unfolding keeps_def using wf_add_row [of t r] by blast
qed

lemma keeps_upsert:
  "keeps key {k} t
     (case first_where key t k of
        Some ex \<Rightarrow> update_row t (fst ex) row
      | None \<Rightarrow> fst (add_row t row))"
proof (cases "first_where key t k")
  case None
  then show ?thesis
    by (simp add: keeps_add_row)
next
  case (Some ex)
  then have "ex \<in> set (rows t)" "key (snd ex) = k"
    by (simp_all add: first_where_Some)
  then have "keeps key {k} t (update_row t (fst ex) row)"
    by (rule keeps_update_row)
  with Some show ?thesis
    by simp
qed

lemma local_upsert_table:
  "local_upsert key k row t = Inr (t', localId) \<Longrightarrow>
     t' = (case first_where key t k of
             Some ex \<Rightarrow> update_row t (fst ex) row
           | None \<Rightarrow> fst (add_row t row))"
  by (auto simp add: local_upsert_def add_row_def split: option.splits)

lemma keeps_local_upsert:
  assumes "local_upsert key k row t = Inr (t', localId)"
  shows "keeps key {k} t t'"
  using keeps_upsert [of key k t row] local_upsert_table [OF assms] by simp

lemma fold_keeps:
  assumes "\<And>x s. keeps key {k x} (d_table s) (d_table (f x s))"
  shows "keeps key (k ` set xs) (d_table s) (d_table (fold f xs s))"
proof (induction xs arbitrary: s)
  case Nil
  show ?case
    by (simp add: keeps_refl)
next
  case (Cons x xs)
  have "keeps key ({k x} \<union> k ` set xs) (d_table s) (d_table (fold f xs (f x s)))"
    using assms Cons.IH by (rule keeps_trans)
  then show ?case
    by simp
qed

lemma keeps_download_ward:
  "keeps w_code {sw_code ward} (d_table s) (d_table (download_ward ward s))"
  by (auto simp add: download_ward_def down_fail_def keeps_refl
      split: sum.split dest: keeps_local_upsert)

lemma keeps_download_village:
  "keeps v_code {sv_code village} (d_table s) (d_table (download_village m village s))"
  by (auto simp add: download_village_def down_fail_def keeps_refl Let_def
      split: sum.split dest: keeps_local_upsert)

lemma keeps_download_household:
  "keeps h_code {sh_code household} (d_table s)
     (d_table (download_household m household s))"
  by (auto simp add: download_household_def down_fail_def keeps_refl Let_def
      split: sum.split dest: keeps_local_upsert)

lemma keeps_download_citizen:
  "keeps c_uniqueId {sc_unique_id citizen} (d_table s)
     (d_table (download_citizen e storage mw mv mh citizen s))"
  using keeps_upsert [of c_uniqueId "sc_unique_id citizen" "d_table s"]
  by (simp add: download_citizen_def keeps_refl Let_def)

lemma keeps_download_tier:
  assumes "\<And>x s. keeps key {k x} (d_table s) (d_table (step x s))"
    and "download_tier e t created step table s = Inr s'"
  shows "keeps key (k ` set table) (d_table s) (d_table s')"
proof (cases "select_outcome e t")
  case Ok
  with assms(2) have "s' = fold step (ordered created table) s"
    by (simp add: download_tier_def)
  moreover have "keeps key (k ` set (ordered created table)) (d_table s)
      (d_table (fold step (ordered created table) s))"
    using assms(1) by (rule fold_keeps)
  ultimately show ?thesis
    by (simp add: ordered_def)
next
  case ErrorValue
  with assms(2) show ?thesis
    by (auto simp add: download_tier_def keeps_refl)
next
  case Throws
  with assms(2) show ?thesis
    by (simp add: download_tier_def)
qed

lemma keeps_download_wards:
  "download_wards e table s = Inr s' \<Longrightarrow>
     keeps w_code (sw_code ` set table) (d_table s) (d_table s')"
  unfolding download_wards_def
  by (rule keeps_download_tier [where k = sw_code, OF keeps_download_ward])

lemma keeps_download_villages:
  "download_villages e m table s = Inr s' \<Longrightarrow>
     keeps v_code (sv_code ` set table) (d_table s) (d_table s')"
  unfolding download_villages_def
  by (rule keeps_download_tier [where k = sv_code, OF keeps_download_village])

lemma keeps_download_households:
  "download_households e m table s = Inr s' \<Longrightarrow>
     keeps h_code (sh_code ` set table) (d_table s) (d_table s')"
  unfolding download_households_def
  by (rule keeps_download_tier [where k = sh_code, OF keeps_download_household])

lemma keeps_download_citizens:
  "download_citizens e storage mw mv mh table s = Inr s' \<Longrightarrow>
     keeps c_uniqueId (sc_unique_id ` set table) (d_table s) (d_table s')"
  unfolding download_citizens_def
  by (rule keeps_download_tier [where k = sc_unique_id, OF keeps_download_citizen])

lemma download_all_wards:
  "keeps w_code (sw_code ` set (r_wards (w_remote w))) (l_wards (w_local w))
     (l_wards (p_local (download_all e w)))"
  by (auto simp add: download_all_def Let_def keeps_refl split: sum.split
      dest: keeps_download_wards)

lemma download_all_villages:
  "keeps v_code (sv_code ` set (r_villages (w_remote w))) (l_villages (w_local w))
     (l_villages (p_local (download_all e w)))"
  by (auto simp add: download_all_def Let_def keeps_refl split: sum.split
      dest: keeps_download_villages)

lemma download_all_households:
  "keeps h_code (sh_code ` set (r_households (w_remote w))) (l_households (w_local w))
     (l_households (p_local (download_all e w)))"
  by (auto simp add: download_all_def Let_def keeps_refl split: sum.split
      dest: keeps_download_households)

lemma download_all_citizens:
  "keeps c_uniqueId (sc_unique_id ` set (r_citizens (w_remote w))) (l_citizens (w_local w))
     (l_citizens (p_local (download_all e w)))"
  by (auto simp add: download_all_def Let_def keeps_refl split: sum.split
      dest: keeps_download_citizens)

lemma restore_local_tables:
  "l_wards (w_local (fst (restoreFromSupabase e w))) =
     (if onLine e then l_wards (p_local (download_all e w)) else l_wards (w_local w))"
  "l_villages (w_local (fst (restoreFromSupabase e w))) =
     (if onLine e then l_villages (p_local (download_all e w)) else l_villages (w_local w))"
  "l_households (w_local (fst (restoreFromSupabase e w))) =
     (if onLine e then l_households (p_local (download_all e w))
      else l_households (w_local w))"
  "l_citizens (w_local (fst (restoreFromSupabase e w))) =
     (if onLine e then l_citizens (p_local (download_all e w)) else l_citizens (w_local w))"
  by (simp_all add: restoreFromSupabase_def Let_def split: option.split)

lemma restore_remote: "w_remote (fst (restoreFromSupabase e w)) = w_remote w"
  by (simp add: restoreFromSupabase_def Let_def split: option.split)

lemma restore_keeps:
  "keeps w_code (sw_code ` set (r_wards (w_remote w))) (l_wards (w_local w))
     (l_wards (w_local (fst (restoreFromSupabase e w))))"
  "keeps v_code (sv_code ` set (r_villages (w_remote w))) (l_villages (w_local w))
     (l_villages (w_local (fst (restoreFromSupabase e w))))"
  "keeps h_code (sh_code ` set (r_households (w_remote w))) (l_households (w_local w))
     (l_households (w_local (fst (restoreFromSupabase e w))))"
  "keeps c_uniqueId (sc_unique_id ` set (r_citizens (w_remote w))) (l_citizens (w_local w))
     (l_citizens (w_local (fst (restoreFromSupabase e w))))"
  by (simp_all add: restore_local_tables keeps_refl download_all_wards download_all_villages
      download_all_households download_all_citizens)

subsection \<open>Remote tables\<close>

lemma update_eq_id_ids:
  assumes "\<And>old. ident (patch old new) = ident new" and "ident new = i"
  shows "ident ` set (update_eq_id ident patch table i new) = ident ` set table"
proof -
  have "map ident (update_eq_id ident patch table i new) = map ident table"
    using assms by (simp add: update_eq_id_def)
  then show ?thesis
    by (metis set_map)
qed

lemma remote_write_ids:
  assumes "remote_write e t k ident patch existing row table = Inr table'"
    and "\<And>old. ident (patch old row) = ident row"
    and "\<And>i. existing = Some i \<Longrightarrow> ident row = i"
  shows "ident ` set table \<subseteq> ident ` set table'"
proof (cases "write_outcome e t k")
  case Ok
  show ?thesis
  proof (cases existing)
    case None
    with Ok assms(1) show ?thesis
      by (auto simp add: remote_write_def insert_row_def)
  next
    case (Some i)
    with Ok assms(1) have "table' = update_eq_id ident patch table i row"
      by (simp add: remote_write_def)
    with assms(2) assms(3) [OF Some] show ?thesis
      by (simp add: update_eq_id_ids)
  qed
next
  case ErrorValue
  with assms(1) show ?thesis
    by (simp add: remote_write_def)
next
  case Throws
  with assms(1) show ?thesis
    by (simp add: remote_write_def)
qed

lemma wardToSupabase_id:
  "wardToSupabase ward existing fresh = Inr row \<Longrightarrow>
     sw_id row = (case existing of Some i \<Rightarrow> i | None \<Rightarrow> fresh)"
  by (auto simp add: wardToSupabase_def split: sum.splits)

lemma villageToSupabase_id:
  "villageToSupabase village wardUuid existing fresh = Inr row \<Longrightarrow>
     sv_id row = (case existing of Some i \<Rightarrow> i | None \<Rightarrow> fresh)"
  by (auto simp add: villageToSupabase_def split: sum.splits)

lemma householdToSupabase_id:
  "householdToSupabase household villageUuid existing fresh = Inr row \<Longrightarrow>
     sh_id row = (case existing of Some i \<Rightarrow> i | None \<Rightarrow> fresh)"
  by (auto simp add: householdToSupabase_def split: sum.splits)

lemma citizenToSupabase_id:
  "citizenToSupabase c hu vu wu existing fresh deviceId synced = Inr row \<Longrightarrow>
     sc_id row = (case existing of Some i \<Rightarrow> i | None \<Rightarrow> fresh)"
  by (auto simp add: citizenToSupabase_def split: sum.splits)

lemma attach_id:
  "sc_id (fst (attach_fingerprint e c (attach_photo e c (row, storage)))) = sc_id row"
  by (simp add: attach_photo_def attach_fingerprint_def split: prod.split option.split)

lemma fold_grows:
  assumes "\<And>x s. A s \<subseteq> A (f x s)"
  shows "A s \<subseteq> A (fold f xs s)"
proof (induction xs arbitrary: s)
  case Nil
  show ?case by simp
next
  case (Cons x xs)
  have "A s \<subseteq> A (f x s)"
    by (rule assms)
  also have "\<dots> \<subseteq> A (fold f xs (f x s))"
    by (rule Cons.IH)
  finally show ?case
    by simp
qed

lemma upload_ward_ids: "sw_id ` set (u_table s) \<subseteq> sw_id ` set (u_table (upload_ward e w s))"
proof -
  have "sw_id ` set (u_table s) \<subseteq> sw_id ` set table'"
    if "wardToSupabase (snd w) existing (u_uuid s) = Inr row"
      and "remote_write e T_wards (w_code (snd w)) sw_id patch_ward existing row (u_table s)
             = Inr table'"
    for existing row table'
    using that(2)
    by (rule remote_write_ids)
       (simp_all add: patch_ward_def wardToSupabase_id [OF that(1)])
  then show ?thesis
    by (auto simp add: upload_ward_def up_fail_def Let_def split: sum.split)
qed

lemma upload_village_ids:
  "sv_id ` set (u_table s) \<subseteq> sv_id ` set (u_table (upload_village e m v s))"
proof -
  have "sv_id ` set (u_table s) \<subseteq> sv_id ` set table'"
    if "villageToSupabase (snd v) wardUuid existing (u_uuid s) = Inr row"
      and "remote_write e T_villages (v_code (snd v)) sv_id patch_village existing row
             (u_table s) = Inr table'"
    for wardUuid existing row table'
    using that(2)
    by (rule remote_write_ids)
       (simp_all add: patch_village_def villageToSupabase_id [OF that(1)])
  then show ?thesis
    by (auto simp add: upload_village_def up_fail_def Let_def split: sum.split option.split)
qed

lemma upload_household_ids:
  "sh_id ` set (u_table s) \<subseteq> sh_id ` set (u_table (upload_household e m h s))"
proof -
  have "sh_id ` set (u_table s) \<subseteq> sh_id ` set table'"
    if "householdToSupabase (snd h) villageUuid existing (u_uuid s) = Inr row"
      and "remote_write e T_households (h_code (snd h)) sh_id patch_household existing row
             (u_table s) = Inr table'"
    for villageUuid existing row table'
    using that(2)
    by (rule remote_write_ids)
       (simp_all add: patch_household_def householdToSupabase_id [OF that(1)])
  then show ?thesis
    by (auto simp add: upload_household_def up_fail_def Let_def
        split: sum.split option.split)
qed

lemma upload_citizen_ids:
  "sc_id ` set (u_table s) \<subseteq> sc_id ` set (u_table (upload_citizen e mw mv mh c s))"
proof -
  have "sc_id ` set (u_table s) \<subseteq> sc_id ` set table'"
    if "citizenToSupabase (snd c) hu vu wu existing (u_uuid s) deviceId (now e) = Inr core"
      and "remote_write e T_citizens (c_uniqueId (snd c)) sc_id patch_citizen existing
             (fst (attach_fingerprint e (snd c) (attach_photo e (snd c) (core, storage))))
             (u_table s) = Inr table'"
    for hu vu wu existing deviceId core storage table'
    using that(2)
    by (rule remote_write_ids)
       (simp_all add: patch_citizen_def attach_id citizenToSupabase_id [OF that(1)])
  then show ?thesis
    by (auto simp add: upload_citizen_def up_fail_def Let_def draw_def case_prod_beta
        split: sum.split option.split)
qed

lemma put_object_urls: "fst ` set storage \<subseteq> fst ` set (put_object storage u blob)"
  by (force simp add: put_object_def)

lemma attach_urls:
  "fst ` set storage
     \<subseteq> fst ` set (snd (attach_fingerprint e c (attach_photo e c (row, storage))))"
proof -
  have up: "fst ` set st \<subseteq> fst ` set (fst (uploadToStorage e b st blob k))" for b st blob k
    using put_object_urls [of st "(b, k, now e)" blob]
    by (simp add: uploadToStorage_def Let_def split: outcome.split)
  have "fst ` set storage \<subseteq> fst ` set (snd (attach_photo e c (row, storage)))"
    using up [of storage citizen_photos]
    by (simp add: attach_photo_def uploadPhotoToStorage_def case_prod_beta
        split: option.split)
  also have "\<dots> \<subseteq> fst ` set (snd (attach_fingerprint e c (attach_photo e c (row, storage))))"
    using up [of "snd (attach_photo e c (row, storage))" citizen_fingerprints]
    by (simp add: attach_fingerprint_def uploadFingerprintToStorage_def case_prod_beta
        split: option.split)
  finally show ?thesis .
qed

lemma upload_citizen_urls:
  "fst ` set (u_storage s) \<subseteq> fst ` set (u_storage (upload_citizen e mw mv mh c s))"
  using attach_urls [of "u_storage s" e "snd c"]
  by (auto simp add: upload_citizen_def up_fail_def Let_def draw_def case_prod_beta
      split: sum.split option.split)

lemma upload_wards_grows:
  assumes "A \<subseteq> sw_id ` set (u_table s)"
  shows "A \<subseteq> sw_id ` set (u_table (upload_wards e xs s))"
  using assms fold_grows [where A = "\<lambda>s. sw_id ` set (u_table s)" and f = "upload_ward e",
      OF upload_ward_ids, of s xs]
  unfolding upload_wards_def by (rule order_trans)

lemma upload_villages_grows:
  assumes "A \<subseteq> sv_id ` set (u_table s)"
  shows "A \<subseteq> sv_id ` set (u_table (upload_villages e m xs s))"
  using assms fold_grows [where A = "\<lambda>s. sv_id ` set (u_table s)"
      and f = "upload_village e m", OF upload_village_ids, of s xs]
  unfolding upload_villages_def by (rule order_trans)

lemma upload_households_grows:
  assumes "A \<subseteq> sh_id ` set (u_table s)"
  shows "A \<subseteq> sh_id ` set (u_table (upload_households e m xs s))"
  using assms fold_grows [where A = "\<lambda>s. sh_id ` set (u_table s)"
      and f = "upload_household e m", OF upload_household_ids, of s xs]
  unfolding upload_households_def by (rule order_trans)

lemma upload_citizens_grows:
  assumes "A \<subseteq> sc_id ` set (u_table s)"
  shows "A \<subseteq> sc_id ` set (u_table (upload_citizens e mw mv mh xs s))"
  using assms fold_grows [where A = "\<lambda>s. sc_id ` set (u_table s)"
      and f = "upload_citizen e mw mv mh", OF upload_citizen_ids, of s xs]
  unfolding upload_citizens_def by (rule order_trans)

lemma upload_citizens_urls:
  assumes "A \<subseteq> fst ` set (u_storage s)"
  shows "A \<subseteq> fst ` set (u_storage (upload_citizens e mw mv mh xs s))"
  using assms fold_grows [where A = "\<lambda>s. fst ` set (u_storage s)"
      and f = "upload_citizen e mw mv mh", OF upload_citizen_urls, of s xs]
  unfolding upload_citizens_def by (rule order_trans)

lemma upload_all_grows:
  "sw_id ` set (r_wards (w_remote w)) \<subseteq> sw_id ` set (r_wards (w_remote (fst (upload_all e w))))"
  "sv_id ` set (r_villages (w_remote w))
     \<subseteq> sv_id ` set (r_villages (w_remote (fst (upload_all e w))))"
  "sh_id ` set (r_households (w_remote w))
     \<subseteq> sh_id ` set (r_households (w_remote (fst (upload_all e w))))"
  "sc_id ` set (r_citizens (w_remote w))
     \<subseteq> sc_id ` set (r_citizens (w_remote (fst (upload_all e w))))"
  "fst ` set (r_storage (w_remote w))
     \<subseteq> fst ` set (r_storage (w_remote (fst (upload_all e w))))"
  by (simp_all add: upload_all_def Let_def upload_wards_grows upload_villages_grows
      upload_households_grows upload_citizens_grows upload_citizens_urls)

lemma sync_world:
  "fst (syncToSupabase e w) = (if onLine e then fst (upload_all e w) else w)"
  by (simp add: syncToSupabase_def split: prod.split)

lemma upload_all_local:
  "l_wards (w_local (fst (upload_all e w))) = l_wards (w_local w)"
  "l_villages (w_local (fst (upload_all e w))) = l_villages (w_local w)"
  "l_households (w_local (fst (upload_all e w))) = l_households (w_local w)"
  "l_citizens (w_local (fst (upload_all e w))) = l_citizens (w_local w)"
  by (simp_all add: upload_all_def Let_def)

text \<open>
  Claim C9.  Download only adds and updates: on a local table with a primary key, every
  row whose natural key is not among those of the remote rows is still there, unchanged,
  after \<open>restoreFromSupabase\<close>; no key of a local row is lost, and the remote store is not
  touched.  Upload does not delete either: after \<open>syncToSupabase\<close> every identifier of a
  remote row and every stored object is still there, and the four local tables are as
  they were.
\<close>

theorem sync_never_deletes:
  "(wf_table (l_wards (w_local w)) \<and> pw \<in> set (rows (l_wards (w_local w)))
      \<and> w_code (snd pw) \<notin> sw_code ` set (r_wards (w_remote w)) \<longrightarrow>
      pw \<in> set (rows (l_wards (w_local (fst (restoreFromSupabase e w))))))
   \<and> (wf_table (l_villages (w_local w)) \<and> pv \<in> set (rows (l_villages (w_local w)))
      \<and> v_code (snd pv) \<notin> sv_code ` set (r_villages (w_remote w)) \<longrightarrow>
      pv \<in> set (rows (l_villages (w_local (fst (restoreFromSupabase e w))))))
   \<and> (wf_table (l_households (w_local w)) \<and> ph \<in> set (rows (l_households (w_local w)))
      \<and> h_code (snd ph) \<notin> sh_code ` set (r_households (w_remote w)) \<longrightarrow>
      ph \<in> set (rows (l_households (w_local (fst (restoreFromSupabase e w))))))
   \<and> (wf_table (l_citizens (w_local w)) \<and> pc \<in> set (rows (l_citizens (w_local w)))
      \<and> c_uniqueId (snd pc) \<notin> sc_unique_id ` set (r_citizens (w_remote w)) \<longrightarrow>
      pc \<in> set (rows (l_citizens (w_local (fst (restoreFromSupabase e w))))))
   \<and> fst ` set (rows (l_wards (w_local w)))
        \<subseteq> fst ` set (rows (l_wards (w_local (fst (restoreFromSupabase e w)))))
   \<and> fst ` set (rows (l_villages (w_local w)))
        \<subseteq> fst ` set (rows (l_villages (w_local (fst (restoreFromSupabase e w)))))
   \<and> fst ` set (rows (l_households (w_local w)))
        \<subseteq> fst ` set (rows (l_households (w_local (fst (restoreFromSupabase e w)))))
   \<and> fst ` set (rows (l_citizens (w_local w)))
        \<subseteq> fst ` set (rows (l_citizens (w_local (fst (restoreFromSupabase e w)))))
   \<and> w_remote (fst (restoreFromSupabase e w)) = w_remote w
   \<and> sw_id ` set (r_wards (w_remote w))
        \<subseteq> sw_id ` set (r_wards (w_remote (fst (syncToSupabase e w))))
   \<and> sv_id ` set (r_villages (w_remote w))
        \<subseteq> sv_id ` set (r_villages (w_remote (fst (syncToSupabase e w))))
   \<and> sh_id ` set (r_households (w_remote w))
        \<subseteq> sh_id ` set (r_households (w_remote (fst (syncToSupabase e w))))
   \<and> sc_id ` set (r_citizens (w_remote w))
        \<subseteq> sc_id ` set (r_citizens (w_remote (fst (syncToSupabase e w))))
   \<and> fst ` set (r_storage (w_remote w))
        \<subseteq> fst ` set (r_storage (w_remote (fst (syncToSupabase e w))))
   \<and> l_wards (w_local (fst (syncToSupabase e w))) = l_wards (w_local w)
   \<and> l_villages (w_local (fst (syncToSupabase e w))) = l_villages (w_local w)
   \<and> l_households (w_local (fst (syncToSupabase e w))) = l_households (w_local w)
   \<and> l_citizens (w_local (fst (syncToSupabase e w))) = l_citizens (w_local w)"
proof -
  note k = restore_keeps [of w e, unfolded keeps_def]
  show ?thesis
  proof (intro conjI impI)
    show "pw \<in> set (rows (l_wards (w_local (fst (restoreFromSupabase e w)))))"
      if "wf_table (l_wards (w_local w)) \<and> pw \<in> set (rows (l_wards (w_local w)))
        \<and> w_code (snd pw) \<notin> sw_code ` set (r_wards (w_remote w))"
      using that k(1) by blast
    show "pv \<in> set (rows (l_villages (w_local (fst (restoreFromSupabase e w)))))"
      if "wf_table (l_villages (w_local w)) \<and> pv \<in> set (rows (l_villages (w_local w)))
        \<and> v_code (snd pv) \<notin> sv_code ` set (r_villages (w_remote w))"
      using that k(2) by blast
    show "ph \<in> set (rows (l_households (w_local (fst (restoreFromSupabase e w)))))"
      if "wf_table (l_households (w_local w)) \<and> ph \<in> set (rows (l_households (w_local w)))
        \<and> h_code (snd ph) \<notin> sh_code ` set (r_households (w_remote w))"
      using that k(3) by blast
    show "pc \<in> set (rows (l_citizens (w_local (fst (restoreFromSupabase e w)))))"
      if "wf_table (l_citizens (w_local w)) \<and> pc \<in> set (rows (l_citizens (w_local w)))
        \<and> c_uniqueId (snd pc) \<notin> sc_unique_id ` set (r_citizens (w_remote w))"
      using that k(4) by blast
  qed (simp_all add: k restore_remote sync_world upload_all_grows upload_all_local)
qed

theorem sync_never_deletes_witness:
  "wf_table (l_wards (w_local other_device))
   \<and> (1, ward_W02) \<in> set (rows (l_wards (w_local other_device)))
   \<and> w_code (snd (1, ward_W02)) \<notin> sw_code ` set (r_wards (w_remote other_device))
   \<and> (1, ward_W02) \<in> set (rows (l_wards (w_local (fst (restoreFromSupabase reliable
         other_device)))))
   \<and> (1, village_V02) \<in> set (rows (l_villages (w_local (fst (restoreFromSupabase reliable
         other_device)))))
   \<and> (1, household_H002) \<in> set (rows (l_households (w_local (fst (restoreFromSupabase
         reliable other_device)))))
   \<and> (1, mary_kila) \<in> set (rows (l_citizens (w_local (fst (restoreFromSupabase reliable
         other_device)))))
   \<and> length (rows (l_wards (w_local (fst (restoreFromSupabase reliable other_device))))) = 2"
proof -
  have w: "wf_table (l_wards (w_local other_device))
      \<and> (1, ward_W02) \<in> set (rows (l_wards (w_local other_device)))
      \<and> w_code (snd (1, ward_W02)) \<notin> sw_code ` set (r_wards (w_remote other_device))"
    by code_simp
  have v: "wf_table (l_villages (w_local other_device))
      \<and> (1, village_V02) \<in> set (rows (l_villages (w_local other_device)))
      \<and> v_code (snd (1, village_V02)) \<notin> sv_code ` set (r_villages (w_remote other_device))"
    by code_simp
  have h: "wf_table (l_households (w_local other_device))
      \<and> (1, household_H002) \<in> set (rows (l_households (w_local other_device)))
      \<and> h_code (snd (1, household_H002))
          \<notin> sh_code ` set (r_households (w_remote other_device))"
    by code_simp
  have c: "wf_table (l_citizens (w_local other_device))
      \<and> (1, mary_kila) \<in> set (rows (l_citizens (w_local other_device)))
      \<and> c_uniqueId (snd (1, mary_kila))
          \<notin> sc_unique_id ` set (r_citizens (w_remote other_device))"
    by code_simp
  have n: "length (rows (l_wards (w_local (fst (restoreFromSupabase reliable
      other_device))))) = 2"
    by code_simp
  note t = sync_never_deletes
    [of other_device "(1, ward_W02)" reliable "(1, village_V02)" "(1, household_H002)"
      "(1, mary_kila)"]
  note cw = t [THEN conjunct1, THEN mp, OF w]
  note cv = t [THEN conjunct2, THEN conjunct1, THEN mp, OF v]
  note ch = t [THEN conjunct2, THEN conjunct2, THEN conjunct1, THEN mp, OF h]
  note cc = t [THEN conjunct2, THEN conjunct2, THEN conjunct2, THEN conjunct1, THEN mp, OF c]
  from w cw cv ch cc n show ?thesis
    by simp
qed

section \<open>Uploading twice\<close>

subsection \<open>Remote tables with unique identifiers and keys\<close>













subsection \<open>One upsert\<close>



subsection \<open>Running a loop a second time\<close>




subsection \<open>A second run over a tier without stamps\<close>

subsection \<open>A tier without stamps\<close>


subsection \<open>Wards, villages and households\<close>

subsection \<open>Wards, villages and households\<close>




















subsection \<open>Citizens\<close>

subsection \<open>Citizens\<close>













subsection \<open>The whole run\<close>








end
